theory Spec2Isabelle
  imports Complex_Main "HOL-Library.Word" "HOL-Library.Multiset"
begin

text \<open>
  The application has two parts that can be checked: the relational schema (tables
  \<open>users\<close> and \<open>predictions\<close>) with the persistence contract over it, and the client
  script \<open>static/js/script.js\<close> with its form validators and its call of the prediction
  endpoint. Both are embedded below as functions on explicit states; the properties follow
  the definitions.
\<close>


section \<open>The persistence layer: tables \<open>users\<close> and \<open>predictions\<close>\<close>

text \<open>
  The schema file declares two tables. Every column is \<open>NOT NULL\<close> or has a default, so a
  row is a record with one value per column. Column names are qualified by their table, as
  in \<open>users.id\<close> and \<open>predictions.user_id\<close>. \<open>INTEGER\<close> columns are \<open>int\<close>, \<open>REAL\<close> columns
  are \<open>rat\<close> (the store only keeps and returns them), \<open>TIMESTAMP\<close> columns are a count of
  clock ticks.
\<close>

record users_row =
  users_id :: int
  users_username :: string
  users_email :: string
  users_password_hash :: string
  users_is_admin :: bool
  users_created_at :: nat

record predictions_row =
  predictions_id :: int
  predictions_user_id :: int
  predictions_age :: int
  predictions_gender :: string
  predictions_bmi :: rat
  predictions_children :: int
  predictions_smoker :: string
  predictions_region :: string
  predictions_predicted_premium :: rat
  predictions_created_at :: nat

text \<open>
  A store state holds the rows of both tables in insertion order and, for each
  \<open>AUTOINCREMENT\<close> key, the largest identity handed out so far.
\<close>

record store =
  users :: "users_row list"
  predictions :: "predictions_row list"
  users_seq :: int
  predictions_seq :: int

definition empty_store :: store where
  "empty_store = \<lparr>users = [], predictions = [], users_seq = 0, predictions_seq = 0\<rparr>"

datatype store_error = DuplicateUsername | DuplicateEmail | ForeignKeyViolation | NotFound

text \<open>The six prediction attributes of a request.\<close>

record attributes =
  attr_age :: int
  attr_gender :: string
  attr_bmi :: rat
  attr_children :: int
  attr_smoker :: string
  attr_region :: string

text \<open>
  Neither the contract nor the schema says which violation an insert reports when it
  violates both \<open>UNIQUE\<close> constraints at once. That is left to the store: its precedence is
  a parameter of \<open>createUser\<close>, and every property holds for both values.
\<close>

datatype precedence = UsernameFirst | EmailFirst

text \<open>
  Modelled from the spec: the operations of the persistence contract (section 4.1) are not
  part of the source files; only the schema they act on is. Each operation is one statement
  against the schema: \<open>createUser\<close> is an insert into \<open>users\<close> under the two \<open>UNIQUE\<close>
  constraints; the new row takes the next identity, \<open>is_admin\<close> its default \<open>FALSE\<close> and
  \<open>created_at\<close> the current time \<open>now\<close>.
\<close>

definition createUser ::
  "precedence \<Rightarrow> nat \<Rightarrow> string \<Rightarrow> string \<Rightarrow> string \<Rightarrow> store \<Rightarrow> (store_error + int) \<times> store"
  where
  "createUser reported now username email passwordHash s =
     (let username_taken = username \<in> users_username ` set (users s);
          email_taken = email \<in> users_email ` set (users s)
      in if username_taken \<and> email_taken then
           (case reported of
              UsernameFirst \<Rightarrow> (Inl DuplicateUsername, s)
            | EmailFirst \<Rightarrow> (Inl DuplicateEmail, s))
         else if username_taken then (Inl DuplicateUsername, s)
         else if email_taken then (Inl DuplicateEmail, s)
         else
           let new_id = users_seq s + 1;
               row = \<lparr>users_id = new_id, users_username = username, users_email = email,
                      users_password_hash = passwordHash, users_is_admin = False,
                      users_created_at = now\<rparr>
           in (Inr new_id, s\<lparr>users := users s @ [row], users_seq := new_id\<rparr>))"

text \<open>
  Modelled from the spec: \<open>getUserByUsernameOrEmail\<close> (section 4.1) returns the first row
  whose username or email equals the key.
\<close>

definition getUserByUsernameOrEmail :: "string \<Rightarrow> store \<Rightarrow> store_error + users_row" where
  "getUserByUsernameOrEmail key s =
     (case find (\<lambda>u. users_username u = key \<or> users_email u = key) (users s) of
        None \<Rightarrow> Inl NotFound
      | Some u \<Rightarrow> Inr u)"

text \<open>
  Modelled from the spec: \<open>recordPrediction\<close> (section 4.1) is an insert into
  \<open>predictions\<close> under the constraint
  \<open>FOREIGN KEY (user_id) REFERENCES users (id)\<close> of the schema.
\<close>

definition recordPrediction ::
  "nat \<Rightarrow> int \<Rightarrow> attributes \<Rightarrow> rat \<Rightarrow> store \<Rightarrow> (store_error + int) \<times> store" where
  "recordPrediction now userId attrs predictedPremium s =
     (if userId \<notin> users_id ` set (users s) then (Inl ForeignKeyViolation, s)
      else
        let new_id = predictions_seq s + 1;
            row = \<lparr>predictions_id = new_id, predictions_user_id = userId,
                   predictions_age = attr_age attrs, predictions_gender = attr_gender attrs,
                   predictions_bmi = attr_bmi attrs, predictions_children = attr_children attrs,
                   predictions_smoker = attr_smoker attrs, predictions_region = attr_region attrs,
                   predictions_predicted_premium = predictedPremium,
                   predictions_created_at = now\<rparr>
        in (Inr new_id, s\<lparr>predictions := predictions s @ [row], predictions_seq := new_id\<rparr>))"

text \<open>
  Modelled from the spec: \<open>listPredictionsForUser\<close> (section 4.1) with its default order,
  \<open>created_at\<close>; rows of equal time stay in insertion order.
\<close>

definition listPredictionsForUser :: "int \<Rightarrow> store \<Rightarrow> predictions_row list" where
  "listPredictionsForUser userId s =
     sort_key predictions_created_at
       (filter (\<lambda>p. predictions_user_id p = userId) (predictions s))"

text \<open>
  Modelled from the spec: \<open>deleteUser\<close> (section 4.1) deletes the rows of \<open>users\<close> with
  the given identity; \<open>ON DELETE CASCADE\<close> of the schema deletes the rows of
  \<open>predictions\<close> that reference it. Deleting an unknown identity deletes nothing.
\<close>

definition deleteUser :: "int \<Rightarrow> store \<Rightarrow> store" where
  "deleteUser userId s =
     s\<lparr>users := filter (\<lambda>u. users_id u \<noteq> userId) (users s),
       predictions := filter (\<lambda>p. predictions_user_id p \<noteq> userId) (predictions s)\<rparr>"

text \<open>
  The reachable store states: the empty store, and every state one of the three writing
  operations produces from a reachable state (a failed operation returns the state it got).
\<close>

inductive reachable :: "store \<Rightarrow> bool" where
  reachable_empty: "reachable empty_store"
| reachable_createUser:
    "reachable s \<Longrightarrow>
     reachable (snd (createUser reported now username email passwordHash s))"
| reachable_recordPrediction:
    "reachable s \<Longrightarrow> reachable (snd (recordPrediction now userId attrs predictedPremium s))"
| reachable_deleteUser:
    "reachable s \<Longrightarrow> reachable (deleteUser userId s)"

text \<open>The invariants of the schema's key constraints.\<close>

definition foreign_key_ok :: "store \<Rightarrow> bool" where
  "foreign_key_ok s =
     list_all (\<lambda>p. predictions_user_id p \<in> users_id ` set (users s)) (predictions s)"

definition primary_key_ok :: "store \<Rightarrow> bool" where
  "primary_key_ok s =
     (distinct (map users_id (users s)) \<and> list_all (\<lambda>u. users_id u \<le> users_seq s) (users s))"

text \<open>Example stores: two users, three predictions recorded out of time order.\<close>

definition ann_attrs :: attributes where
  "ann_attrs = \<lparr>attr_age = 45, attr_gender = ''female'', attr_bmi = 112 / 5,
                 attr_children = 2, attr_smoker = ''no'', attr_region = ''southwest''\<rparr>"

definition store_ann :: store where
  "store_ann = snd (createUser UsernameFirst 1 ''ann'' ''ann@example.org'' ''h1'' empty_store)"

definition store_ann_bob :: store where
  "store_ann_bob = snd (createUser EmailFirst 2 ''bob'' ''bob@example.org'' ''h2'' store_ann)"

definition store_two :: store where
  "store_two =
     snd (recordPrediction 8 1 ann_attrs 300
       (snd (recordPrediction 7 2 ann_attrs 200
         (snd (recordPrediction 9 1 ann_attrs 100 store_ann_bob)))))"

definition row_ann :: users_row where
  "row_ann = \<lparr>users_id = 1, users_username = ''ann'', users_email = ''ann@example.org'',
      users_password_hash = ''h1'', users_is_admin = False, users_created_at = 1\<rparr>"

definition prediction_at :: "int \<Rightarrow> int \<Rightarrow> nat \<Rightarrow> rat \<Rightarrow> predictions_row" where
  "prediction_at i u t pp =
     \<lparr>predictions_id = i, predictions_user_id = u, predictions_age = 45,
      predictions_gender = ''female'', predictions_bmi = 112 / 5, predictions_children = 2,
      predictions_smoker = ''no'', predictions_region = ''southwest'',
      predictions_predicted_premium = pp, predictions_created_at = t\<rparr>"

section \<open>The client script: strings and numbers\<close>

text \<open>
  A string of the script is a sequence of 16-bit code units; \<open>lit\<close> embeds the literals of
  the source.
\<close>

type_synonym jschar = "16 word"
type_synonym jsstring = "jschar list"

definition lit :: "string \<Rightarrow> jsstring" where
  "lit s = map of_char s"

text \<open>
  A number of the script is \<open>NaN\<close>, an infinity, or a finite value. Finite doubles are
  rationals, so \<open>Fin\<close> carries a rational; the two zeros are not told apart, which no
  comparison of the script does either. A comparison with \<open>NaN\<close> is false.
\<close>

datatype jsnum = NaN | NegInfinity | Fin rat | Infinity

fun js_lt :: "jsnum \<Rightarrow> jsnum \<Rightarrow> bool" where
  "js_lt NaN y = False"
| "js_lt x NaN = False"
| "js_lt x NegInfinity = False"
| "js_lt NegInfinity y = True"
| "js_lt Infinity y = False"
| "js_lt (Fin a) Infinity = True"
| "js_lt (Fin a) (Fin b) = (a < b)"

definition js_gt :: "jsnum \<Rightarrow> jsnum \<Rightarrow> bool" where
  "js_gt x y = js_lt y x"

definition js_le :: "jsnum \<Rightarrow> jsnum \<Rightarrow> bool" where
  "js_le x y = (x \<noteq> NaN \<and> y \<noteq> NaN \<and> \<not> js_lt y x)"

definition js_ge :: "jsnum \<Rightarrow> jsnum \<Rightarrow> bool" where
  "js_ge x y = js_le y x"

text \<open>
  The number value of a mathematical value: the nearest double, ties to the even
  significand, and an infinity from \<open>2\<^sup>1\<^sup>0\<^sup>2\<^sup>4\<close> on. \<open>floor_log2 a\<close> is the binary exponent of a
  positive \<open>a\<close>; below \<open>2\<^sup>-\<^sup>1\<^sup>0\<^sup>2\<^sup>2\<close> the spacing of the doubles stays \<open>2\<^sup>-\<^sup>1\<^sup>0\<^sup>7\<^sup>4\<close>.
\<close>

definition pow2 :: "int \<Rightarrow> rat" where
  "pow2 k = (if 0 \<le> k then 2 ^ nat k else 1 / 2 ^ nat (- k))"

function bit_length :: "int \<Rightarrow> int" where
  "bit_length n = (if n \<le> 0 then 0 else bit_length (n div 2) + 1)"
  by pat_completeness auto
termination
  by (relation "measure nat") auto

declare bit_length.simps [simp del]

definition floor_log2 :: "rat \<Rightarrow> int" where
  "floor_log2 q =
     (if 1 \<le> q then bit_length \<lfloor>q\<rfloor> - 1
      else - bit_length (\<lceil>1 / q\<rceil> - 1))"

definition round_half_even :: "rat \<Rightarrow> int" where
  "round_half_even q =
     (let n = \<lfloor>q\<rfloor>; r = q - of_int n
      in if r < 1 / 2 then n else if 1 / 2 < r then n + 1 else if even n then n else n + 1)"

definition round_to_double :: "rat \<Rightarrow> jsnum" where
  "round_to_double q =
     (if q = 0 then Fin 0
      else
        let a = \<bar>q\<bar>;
            e = max (floor_log2 a) (- 1022);
            ulp = pow2 (e - 52);
            v = of_int (round_half_even (a / ulp)) * ulp
        in if v \<noteq> 0 \<and> 1024 \<le> floor_log2 v
           then (if q < 0 then NegInfinity else Infinity)
           else Fin (if q < 0 then - v else v))"

text \<open>
  White space and line terminators: the code units that \<open>parseInt\<close>, \<open>parseFloat\<close> and
  \<open>trim\<close> strip and that \<open>\s\<close> matches in a regular expression.
\<close>

definition is_space :: "jschar \<Rightarrow> bool" where
  "is_space c =
     (c \<in> {0x0009, 0x000A, 0x000B, 0x000C, 0x000D, 0x0020, 0x00A0, 0x1680, 0x2028, 0x2029,
            0x202F, 0x205F, 0x3000, 0xFEFF}
      \<or> (0x2000 \<le> c \<and> c \<le> 0x200A))"

definition trim :: "jsstring \<Rightarrow> jsstring" where
  "trim s = rev (dropWhile is_space (rev (dropWhile is_space s)))"

definition digit_value :: "jschar \<Rightarrow> int option" where
  "digit_value c =
     (if 0x30 \<le> c \<and> c \<le> 0x39 then Some (uint c - 0x30)
      else if 0x61 \<le> c \<and> c \<le> 0x7A then Some (uint c - 0x61 + 10)
      else if 0x41 \<le> c \<and> c \<le> 0x5A then Some (uint c - 0x41 + 10)
      else None)"

definition is_digit :: "int \<Rightarrow> jschar \<Rightarrow> bool" where
  "is_digit R c = (case digit_value c of None \<Rightarrow> False | Some d \<Rightarrow> d < R)"

fun digits_value :: "int \<Rightarrow> int \<Rightarrow> jsstring \<Rightarrow> int" where
  "digits_value R n [] = n"
| "digits_value R n (c # cs) =
     digits_value R (n * R + (case digit_value c of None \<Rightarrow> 0 | Some d \<Rightarrow> d)) cs"

definition strip_sign :: "jsstring \<Rightarrow> int \<times> jsstring" where
  "strip_sign S =
     (case S of
        [] \<Rightarrow> (1, [])
      | c # cs \<Rightarrow> if c = 0x2D then (- 1, cs) else if c = 0x2B then (1, cs) else (1, S))"

text \<open>
  \<open>parseInt(string)\<close> with no radix: leading white space is dropped, then a sign, then
  \<open>0x\<close> or \<open>0X\<close> (which makes the radix 16); the digits up to the first code unit that is
  not a digit of the radix are the value, and no digit at all gives \<open>NaN\<close>.
\<close>

definition parseInt :: "jsstring \<Rightarrow> jsnum" where
  "parseInt string =
     (let (sign, S) = strip_sign (dropWhile is_space string);
          (R, S) = (if take 2 S = lit ''0x'' \<or> take 2 S = lit ''0X'' then (16, drop 2 S)
                    else (10, S));
          Z = takeWhile (is_digit R) S
      in if Z = [] then NaN else round_to_double (of_int (sign * digits_value R 0 Z)))"

text \<open>
  \<open>parseFloat(string)\<close>: leading white space is dropped; the longest prefix that is a
  decimal literal (a sign, then \<open>Infinity\<close> or digits with an optional fraction and an
  optional exponent) is the value, and no such prefix gives \<open>NaN\<close>.
\<close>

definition pow10 :: "int \<Rightarrow> rat" where
  "pow10 k = (if 0 \<le> k then 10 ^ nat k else 1 / 10 ^ nat (- k))"

definition exponent_part :: "jsstring \<Rightarrow> int" where
  "exponent_part S =
     (case S of
        [] \<Rightarrow> 0
      | c # cs \<Rightarrow>
          if c = 0x65 \<or> c = 0x45 then
            (let (sign, ds) = strip_sign cs; digits = takeWhile (is_digit 10) ds
             in if digits = [] then 0 else sign * digits_value 10 0 digits)
          else 0)"

definition parseFloat :: "jsstring \<Rightarrow> jsnum" where
  "parseFloat string =
     (let (sign, S) = strip_sign (dropWhile is_space string)
      in if take 8 S = lit ''Infinity'' then (if sign < 0 then NegInfinity else Infinity)
         else
           let int_digits = takeWhile (is_digit 10) S;
               S1 = dropWhile (is_digit 10) S;
               (frac_digits, S2) =
                 (case S1 of
                    [] \<Rightarrow> ([], [])
                  | c # cs \<Rightarrow>
                      if c = 0x2E then (takeWhile (is_digit 10) cs, dropWhile (is_digit 10) cs)
                      else ([], S1))
           in if int_digits = [] \<and> frac_digits = [] then NaN
              else round_to_double
                     (of_int (sign * digits_value 10 0 (int_digits @ frac_digits)) *
                      pow10 (exponent_part S2 - int (length frac_digits))))"

section \<open>The client script: regular expressions\<close>

text \<open>
  The fragment of the pattern language that \<open>emailRegex\<close> uses: a single code unit, a
  negated class \<open>[^...]\<close> of code units and of \<open>\s\<close>, sequence, and \<open>+\<close>. \<open>Never\<close>, \<open>Empty\<close>,
  \<open>Alt\<close> and \<open>Star\<close> are there for the derivatives that the matcher takes.
\<close>

datatype class_item = Space | Single jschar

datatype regex =
    Never
  | Empty
  | Char jschar
  | NotOneOf "class_item list"
  | Alt regex regex
  | Seq regex regex
  | Star regex

definition Plus :: "regex \<Rightarrow> regex" where
  "Plus r = Seq r (Star r)"

fun item_matches :: "class_item \<Rightarrow> jschar \<Rightarrow> bool" where
  "item_matches Space c = is_space c"
| "item_matches (Single d) c = (c = d)"

fun nullable :: "regex \<Rightarrow> bool" where
  "nullable Never = False"
| "nullable Empty = True"
| "nullable (Char d) = False"
| "nullable (NotOneOf items) = False"
| "nullable (Alt r s) = (nullable r \<or> nullable s)"
| "nullable (Seq r s) = (nullable r \<and> nullable s)"
| "nullable (Star r) = True"

fun deriv :: "jschar \<Rightarrow> regex \<Rightarrow> regex" where
  "deriv c Never = Never"
| "deriv c Empty = Never"
| "deriv c (Char d) = (if c = d then Empty else Never)"
| "deriv c (NotOneOf items) = (if list_ex (\<lambda>i. item_matches i c) items then Never else Empty)"
| "deriv c (Alt r s) = Alt (deriv c r) (deriv c s)"
| "deriv c (Seq r s) =
     (if nullable r then Alt (Seq (deriv c r) s) (deriv c s) else Seq (deriv c r) s)"
| "deriv c (Star r) = Seq (deriv c r) (Star r)"

text \<open>
  \<open>test\<close> for a pattern written between \<open>^\<close> and \<open>$\<close> with no flag: the whole string has
  to match.
\<close>

fun test :: "regex \<Rightarrow> jsstring \<Rightarrow> bool" where
  "test r [] = nullable r"
| "test r (c # cs) = test (deriv c r) cs"

text \<open>The strings a pattern matches, for stating what the matcher decides.\<close>

inductive_set star :: "jsstring set \<Rightarrow> jsstring set" for A :: "jsstring set" where
  star_empty: "[] \<in> star A"
| star_append: "u \<in> A \<Longrightarrow> v \<in> star A \<Longrightarrow> u @ v \<in> star A"

fun lang :: "regex \<Rightarrow> jsstring set" where
  "lang Never = {}"
| "lang Empty = {[]}"
| "lang (Char d) = {[d]}"
| "lang (NotOneOf items) = {[c] | c. \<not> list_ex (\<lambda>i. item_matches i c) items}"
| "lang (Alt r s) = lang r \<union> lang s"
| "lang (Seq r s) = {u @ v | u v. u \<in> lang r \<and> v \<in> lang s}"
| "lang (Star r) = star (lang r)"

text \<open>\<open>/^[^\s@]+@[^\s@]+\.[^\s@]+$/\<close>\<close>

definition emailRegex :: regex where
  "emailRegex =
     Seq (Plus (NotOneOf [Space, Single 0x40]))
       (Seq (Char 0x40)
         (Seq (Plus (NotOneOf [Space, Single 0x40]))
           (Seq (Char 0x2E)
             (Plus (NotOneOf [Space, Single 0x40])))))"

text \<open>
  The shape \<open>local@domain.tld\<close> in the words of the specification: three parts, none
  empty, none holding white space or \<open>@\<close>, joined by \<open>@\<close> and by a dot.
\<close>

definition email_part :: "jsstring \<Rightarrow> bool" where
  "email_part w = (w \<noteq> [] \<and> list_all (\<lambda>c. \<not> is_space c \<and> c \<noteq> 0x40) w)"

definition local_at_domain_dot_tld :: "jsstring \<Rightarrow> bool" where
  "local_at_domain_dot_tld s =
     (\<exists>local domain tld.
        s = local @ [0x40] @ domain @ [0x2E] @ tld \<and>
        email_part local \<and> email_part domain \<and> email_part tld)"

section \<open>The client script: form validation\<close>

text \<open>
  A form control as the validators see it: its value, type and name, whether it has the
  \<open>required\<close> attribute, its class list, the border colour of its style, and the text of
  the first \<open>.invalid-feedback\<close> element under its parent (\<open>None\<close> when there is none).
\<close>

record element =
  el_value :: jsstring
  el_type :: jsstring
  el_name :: jsstring
  el_required :: bool
  classList :: "jsstring list"
  borderColor :: jsstring
  feedback :: "jsstring option"

definition classList_add :: "jsstring \<Rightarrow> element \<Rightarrow> element" where
  "classList_add token e =
     (if token \<in> set (classList e) then e else e\<lparr>classList := classList e @ [token]\<rparr>)"

definition classList_remove :: "jsstring \<Rightarrow> element \<Rightarrow> element" where
  "classList_remove token e = e\<lparr>classList := removeAll token (classList e)\<rparr>"

definition textContent :: "element \<Rightarrow> jsstring" where
  "textContent e = (case feedback e of None \<Rightarrow> [] | Some t \<Rightarrow> t)"

definition createFeedbackElement :: "element \<Rightarrow> element" where
  "createFeedbackElement input = input\<lparr>feedback := Some []\<rparr>"

text \<open>
  \<open>input.parentNode.querySelector('.invalid-feedback') || createFeedbackElement(input)\<close>
\<close>

definition feedback_or_create :: "element \<Rightarrow> element" where
  "feedback_or_create input =
     (case feedback input of None \<Rightarrow> createFeedbackElement input | Some t \<Rightarrow> input)"

definition getBMICategory :: "jsnum \<Rightarrow> jsstring" where
  "getBMICategory bmi =
     (if js_lt bmi (Fin (37 / 2)) then lit ''Underweight''
      else if js_lt bmi (Fin 25) then lit ''Normal weight''
      else if js_lt bmi (Fin 30) then lit ''Overweight''
      else lit ''Obese'')"

definition validateAge :: "element \<Rightarrow> element" where
  "validateAge input =
     (let age = parseInt (el_value input);
          input1 = feedback_or_create input
      in if js_lt age (Fin 18) \<or> js_gt age (Fin 100) then
           (classList_remove (lit ''is-valid'') (classList_add (lit ''is-invalid'') input1))
             \<lparr>feedback := Some (lit ''Age must be between 18 and 100 years.'')\<rparr>
         else if js_ge age (Fin 18) \<and> js_le age (Fin 100) then
           (classList_remove (lit ''is-invalid'') (classList_add (lit ''is-valid'') input1))
             \<lparr>feedback := Some []\<rparr>
         else input1)"

definition validateBMI :: "element \<Rightarrow> element" where
  "validateBMI input =
     (let bmi = parseFloat (el_value input);
          input1 = feedback_or_create input
      in if js_lt bmi (Fin 10) \<or> js_gt bmi (Fin 50) then
           (classList_remove (lit ''is-valid'') (classList_add (lit ''is-invalid'') input1))
             \<lparr>feedback := Some (lit ''BMI must be between 10 and 50.'')\<rparr>
         else if js_ge bmi (Fin 10) \<and> js_le bmi (Fin 50) then
           (classList_remove (lit ''is-invalid'') (classList_add (lit ''is-valid'') input1))
             \<lparr>feedback := Some (getBMICategory bmi),
              borderColor :=
                (if js_lt bmi (Fin (37 / 2)) then lit ''#17a2b8''
                 else if js_lt bmi (Fin 25) then lit ''#28a745''
                 else if js_lt bmi (Fin 30) then lit ''#ffc107''
                 else lit ''#dc3545'')\<rparr>
         else input1)"

definition validateEmail :: "element \<Rightarrow> element" where
  "validateEmail input =
     (let email = el_value input;
          input1 = feedback_or_create input
      in if \<not> test emailRegex email then
           (classList_remove (lit ''is-valid'') (classList_add (lit ''is-invalid'') input1))
             \<lparr>feedback := Some (lit ''Please enter a valid email address.'')\<rparr>
         else
           (classList_remove (lit ''is-invalid'') (classList_add (lit ''is-valid'') input1))
             \<lparr>feedback := Some []\<rparr>)"

text \<open>
  \<open>validateField\<close> returns \<open>false\<close>, \<open>true\<close>, or what a validator returns; the three
  validators have no \<open>return\<close>, so their result is \<open>undefined\<close>, here \<open>None\<close>.
\<close>

definition validateField :: "element \<Rightarrow> bool option \<times> element" where
  "validateField field =
     (let value = trim (el_value field);
          field1 = classList_remove (lit ''is-invalid'') (classList_remove (lit ''is-valid'') field)
      in if el_required field1 \<and> value = [] then (Some False, classList_add (lit ''is-invalid'') field1)
         else if el_name field1 = lit ''age'' then (None, validateAge field1)
         else if el_name field1 = lit ''bmi'' then (None, validateBMI field1)
         else if el_name field1 = lit ''email'' then (None, validateEmail field1)
         else (Some True, if value \<noteq> [] then classList_add (lit ''is-valid'') field1 else field1))"

section \<open>The client script: the prediction request\<close>

text \<open>
  An element that the script builds is kept as what the script assigns to it: its class
  name and the string assigned to its \<open>innerHTML\<close>. The browser parses that string as
  HTML; the child nodes that come of it are not modelled, so the model says which markup
  an alert is given, not how a message holding markup is rendered. A request is what
  \<open>fetch\<close> is given; \<open>body\<close> holds the value whose JSON text is sent.
\<close>

record node =
  className :: jsstring
  innerHTML_assigned :: jsstring

record 'a request =
  url :: jsstring
  http_method :: jsstring
  headers :: "(jsstring \<times> jsstring) list"
  body :: 'a

text \<open>
  The parsed body of a response, by the interface of the endpoint: a boolean \<open>success\<close>,
  a string \<open>formatted_prediction\<close>, a string \<open>error\<close>; \<open>None\<close> is a member that is absent.
  \<open>fetch\<close> followed by \<open>response.json()\<close> ends in one of three ways.
\<close>

record data =
  success :: "bool option"
  formatted_prediction :: "jsstring option"
  error :: "jsstring option"

datatype outcome = NetworkFailure | ParseFailure | Parsed data

text \<open>
  The state of the client that the script reads and writes: the controls of the form,
  the children of the first \<open>.container\<close> element of the page (\<open>None\<close> when the page has
  none), the timers set, the requests sent, and the lines of the error console.
\<close>

record 'a client =
  form_fields :: "element list"
  container :: "node list option"
  timers :: "(nat \<times> node) list"
  requests :: "'a request list"
  console :: "jsstring list"

text \<open>\<open>x || y\<close> for \<open>x\<close> a string or \<open>undefined\<close>: \<open>undefined\<close> and the empty string are falsy.\<close>

definition or_else :: "jsstring option \<Rightarrow> jsstring \<Rightarrow> jsstring" where
  "or_else x y = (case x of None \<Rightarrow> y | Some t \<Rightarrow> if t = [] then y else t)"

text \<open>\<open>${x}\<close> in a template literal, for a string or \<open>undefined\<close>.\<close>

definition to_string :: "jsstring option \<Rightarrow> jsstring" where
  "to_string s = (case s of None \<Rightarrow> lit ''undefined'' | Some t \<Rightarrow> t)"

definition alertDiv :: "jsstring \<Rightarrow> jsstring \<Rightarrow> node" where
  "alertDiv message type =
     \<lparr>className = lit ''alert alert-'' @ type @ lit '' alert-dismissible fade show'',
      innerHTML_assigned =
        [0x0A] @ lit ''        <i class=\"fas fa-'' @
        (if type = lit ''success'' then lit ''check-circle'' else lit ''exclamation-triangle'') @
        lit '' me-2\"></i>'' @ [0x0A] @ lit ''        '' @ message @ [0x0A] @
        lit ''        <button type=\"button\" class=\"btn-close\" data-bs-dismiss=\"alert\"></button>'' @
        [0x0A] @ lit ''    ''\<rparr>"

text \<open>
  \<open>showMessage\<close> builds the alert, and only on a page with a \<open>.container\<close> element puts
  it before the container's first child and sets the timer that closes it after 5 seconds.
\<close>

definition showMessage :: "jsstring \<Rightarrow> jsstring \<Rightarrow> 'a client \<Rightarrow> 'a client" where
  "showMessage message type c =
     (case container c of
        None \<Rightarrow> c
      | Some children \<Rightarrow>
          c\<lparr>container := Some (alertDiv message type # children),
            timers := timers c @ [(5000, alertDiv message type)]\<rparr>)"

definition showSuccessMessage :: "jsstring \<Rightarrow> 'a client \<Rightarrow> 'a client" where
  "showSuccessMessage message c = showMessage message (lit ''success'') c"

definition showErrorMessage :: "jsstring \<Rightarrow> 'a client \<Rightarrow> 'a client" where
  "showErrorMessage message c = showMessage message (lit ''danger'') c"

definition predict_request :: "'a \<Rightarrow> 'a request" where
  "predict_request formData =
     \<lparr>url = lit ''/user/api/predict'', http_method = lit ''POST'',
      headers = [(lit ''Content-Type'', lit ''application/json'')], body = formData\<rparr>"

text \<open>
  \<open>submitPredictionAJAX(formData)\<close> sends the request at once; the handlers of the promise
  run when the outcome of the request is there. The function of the model takes that
  outcome as an argument and returns the value the promise resolves to (\<open>None\<close> for
  \<open>undefined\<close>) with the state after the handlers.
\<close>

definition submitPredictionAJAX ::
  "'a \<Rightarrow> outcome \<Rightarrow> 'a client \<Rightarrow> data option \<times> 'a client" where
  "submitPredictionAJAX formData result c0 =
     (let c = c0\<lparr>requests := requests c0 @ [predict_request formData]\<rparr>
      in case result of
           Parsed d \<Rightarrow>
             (Some d,
              if success d = Some True then
                showSuccessMessage (lit ''Predicted Premium: '' @ to_string (formatted_prediction d)) c
              else
                showErrorMessage (or_else (error d) (lit ''Prediction failed'')) c)
         | _ \<Rightarrow>
             (None,
              (showErrorMessage (lit ''Network error occurred'') c)
                \<lparr>console := console c @ [lit ''Error:'']\<rparr>))"

text \<open>Example controls, pages and responses.\<close>

definition age_input :: "jsstring \<Rightarrow> element" where
  "age_input v =
     \<lparr>el_value = v, el_type = lit ''number'', el_name = lit ''age'', el_required = True,
      classList = [lit ''form-control''], borderColor = [], feedback = None\<rparr>"

definition bmi_input :: "jsstring \<Rightarrow> element" where
  "bmi_input v =
     \<lparr>el_value = v, el_type = lit ''number'', el_name = lit ''bmi'', el_required = True,
      classList = [lit ''form-control''], borderColor = [], feedback = None\<rparr>"

definition email_input :: "jsstring \<Rightarrow> element" where
  "email_input v =
     \<lparr>el_value = v, el_type = lit ''email'', el_name = lit ''email'', el_required = True,
      classList = [lit ''form-control''], borderColor = [], feedback = None\<rparr>"

definition page_with_container :: "element list \<Rightarrow> attributes client" where
  "page_with_container fs =
     \<lparr>form_fields = fs, container = Some [], timers = [], requests = [], console = []\<rparr>"

definition page_without_container :: "element list \<Rightarrow> attributes client" where
  "page_without_container fs =
     \<lparr>form_fields = fs, container = None, timers = [], requests = [], console = []\<rparr>"

definition ok_data :: data where
  "ok_data = \<lparr>success = Some True, formatted_prediction = Some (lit ''$1,234.56''), error = None\<rparr>"

definition empty_error_data :: data where
  "empty_error_data = \<lparr>success = Some False, formatted_prediction = None, error = Some []\<rparr>"

definition quota_error_data :: data where
  "quota_error_data =
     \<lparr>success = Some False, formatted_prediction = None, error = Some (lit ''Quota exceeded'')\<rparr>"

section \<open>Properties of the persistence layer\<close>

lemma foreign_key_ok_createUser:
  "foreign_key_ok s \<Longrightarrow> foreign_key_ok (snd (createUser reported now username email passwordHash s))"
  by (cases reported) (auto simp: foreign_key_ok_def createUser_def Let_def list_all_iff)

lemma foreign_key_ok_recordPrediction:
  "foreign_key_ok s \<Longrightarrow> foreign_key_ok (snd (recordPrediction now userId attrs pp s))"
  by (auto simp: foreign_key_ok_def recordPrediction_def Let_def list_all_iff)

lemma foreign_key_ok_deleteUser:
  "foreign_key_ok s \<Longrightarrow> foreign_key_ok (deleteUser userId s)"
  by (auto simp: foreign_key_ok_def deleteUser_def list_all_iff)

lemma reachable_foreign_key_ok: "reachable s \<Longrightarrow> foreign_key_ok s"
proof (induction rule: reachable.induct)
  case reachable_empty
  show ?case by (simp add: foreign_key_ok_def empty_store_def)
next
  case (reachable_createUser s reported now username email passwordHash)
  then show ?case by (simp add: foreign_key_ok_createUser)
next
  case (reachable_recordPrediction s now userId attrs predictedPremium)
  then show ?case by (simp add: foreign_key_ok_recordPrediction)
next
  case (reachable_deleteUser s userId)
  then show ?case by (simp add: foreign_key_ok_deleteUser)
qed

lemma primary_key_ok_createUser:
  "primary_key_ok s \<Longrightarrow> primary_key_ok (snd (createUser reported now username email passwordHash s))"
  by (cases reported) (fastforce simp: primary_key_ok_def createUser_def Let_def list_all_iff)+

lemma primary_key_ok_recordPrediction:
  "primary_key_ok s \<Longrightarrow> primary_key_ok (snd (recordPrediction now userId attrs pp s))"
  by (auto simp: primary_key_ok_def recordPrediction_def Let_def)

lemma primary_key_ok_deleteUser:
  "primary_key_ok s \<Longrightarrow> primary_key_ok (deleteUser userId s)"
  by (auto simp: primary_key_ok_def deleteUser_def list_all_iff distinct_map_filter)

lemma reachable_primary_key_ok: "reachable s \<Longrightarrow> primary_key_ok s"
proof (induction rule: reachable.induct)
  case reachable_empty
  show ?case by (simp add: primary_key_ok_def empty_store_def)
next
  case (reachable_createUser s reported now username email passwordHash)
  then show ?case by (simp add: primary_key_ok_createUser)
next
  case (reachable_recordPrediction s now userId attrs predictedPremium)
  then show ?case by (simp add: primary_key_ok_recordPrediction)
next
  case (reachable_deleteUser s userId)
  then show ?case by (simp add: primary_key_ok_deleteUser)
qed

lemma filter_other_key_removeAll:
  "distinct (map f xs) \<Longrightarrow> u \<in> set xs \<Longrightarrow> filter (\<lambda>x. f x \<noteq> f u) xs = removeAll u xs"
proof (induction xs)
  case Nil
  then show ?case by simp
next
  case (Cons x xs)
  show ?case
  proof (cases "x = u")
    case True
    with Cons.prems have fresh: "f u \<notin> f ` set xs" by simp
    then have "\<forall>y\<in>set xs. f y \<noteq> f u" by (metis imageI)
    then have "filter (\<lambda>x. f x \<noteq> f u) xs = xs" by (simp add: filter_id_conv)
    moreover from fresh have "u \<notin> set xs" by blast
    ultimately show ?thesis using True by simp
  next
    case False
    with Cons.prems have "u \<in> set xs" and "distinct (map f xs)" and "f x \<noteq> f u"
      by auto
    with Cons.IH False show ?thesis by simp
  qed
qed

subsection \<open>The example stores\<close>

lemma reachable_store_two: "reachable store_two"
  unfolding store_two_def store_ann_bob_def store_ann_def by (intro reachable.intros)

lemma users_store_two:
  "users store_two =
    [row_ann,
     \<lparr>users_id = 2, users_username = ''bob'', users_email = ''bob@example.org'',
      users_password_hash = ''h2'', users_is_admin = False, users_created_at = 2\<rparr>]"
  by (simp add: store_two_def store_ann_bob_def store_ann_def createUser_def recordPrediction_def
      empty_store_def Let_def row_ann_def)

lemma predictions_store_two:
  "predictions store_two =
     [prediction_at 1 1 9 100, prediction_at 2 2 7 200, prediction_at 3 1 8 300]"
  by (simp add: store_two_def store_ann_bob_def store_ann_def createUser_def recordPrediction_def
      empty_store_def Let_def prediction_at_def ann_attrs_def)

lemma users_store_ann: "users store_ann = [row_ann]"
  by (simp add: store_ann_def createUser_def empty_store_def Let_def row_ann_def)

subsection \<open>Referential integrity\<close>

text \<open>
  Claim C1. In every reachable store state each row of \<open>predictions\<close> has a \<open>user_id\<close> that
  is the \<open>id\<close> of a row of \<open>users\<close>; and \<open>recordPrediction\<close> with a \<open>userId\<close> that no row
  of \<open>users\<close> has fails with \<open>ForeignKeyViolation\<close> and returns the store as it was, so
  nothing is inserted.
\<close>

theorem predictions_referential_integrity:
  assumes "reachable s"
  shows "(\<forall>p\<in>set (predictions s). \<exists>u\<in>set (users s). users_id u = predictions_user_id p) \<and>
         (\<forall>now userId attrs predictedPremium.
            userId \<notin> users_id ` set (users s) \<longrightarrow>
            recordPrediction now userId attrs predictedPremium s = (Inl ForeignKeyViolation, s))"
proof
  from assms have "foreign_key_ok s" by (rule reachable_foreign_key_ok)
  then show "\<forall>p\<in>set (predictions s). \<exists>u\<in>set (users s). users_id u = predictions_user_id p"
    by (fastforce simp: foreign_key_ok_def list_all_iff)
next
  show "\<forall>now userId attrs predictedPremium.
            userId \<notin> users_id ` set (users s) \<longrightarrow>
            recordPrediction now userId attrs predictedPremium s = (Inl ForeignKeyViolation, s)"
    by (simp add: recordPrediction_def)
qed

theorem predictions_referential_integrity_witness:
  "reachable store_two \<and> predictions store_two \<noteq> [] \<and>
   predictions_user_id ` set (predictions store_two) \<subseteq> users_id ` set (users store_two) \<and>
   3 \<notin> users_id ` set (users store_two) \<and>
   recordPrediction 10 3 ann_attrs 400 store_two = (Inl ForeignKeyViolation, store_two)"
proof -
  have fresh: "3 \<notin> users_id ` set (users store_two)"
    by (simp add: users_store_two row_ann_def)
  have nonempty: "predictions store_two \<noteq> []"
    by (simp add: predictions_store_two)
  note integrity = predictions_referential_integrity [OF reachable_store_two]
  have "predictions_user_id ` set (predictions store_two) \<subseteq> users_id ` set (users store_two)"
  proof
    fix i
    assume "i \<in> predictions_user_id ` set (predictions store_two)"
    then obtain p where "p \<in> set (predictions store_two)" and "i = predictions_user_id p"
      by blast
    with integrity obtain u where "u \<in> set (users store_two)" and "users_id u = i"
      by blast
    then show "i \<in> users_id ` set (users store_two)"
      by blast
  qed
  moreover from integrity fresh
  have "recordPrediction 10 3 ann_attrs 400 store_two = (Inl ForeignKeyViolation, store_two)"
    by blast
  ultimately show ?thesis using fresh nonempty reachable_store_two by simp
qed

subsection \<open>Cascade delete\<close>

text \<open>
  Claim C2. For every reachable store state and every row \<open>u\<close> of \<open>users\<close>, \<open>deleteUser\<close> of
  \<open>u\<close>'s id leaves \<open>users\<close> without \<open>u\<close> and with every other row, in place, and leaves
  \<open>predictions\<close> with exactly the rows whose \<open>user_id\<close> differs from \<open>u\<close>'s id, unchanged
  and in place.
\<close>

theorem deleteUser_cascade:
  assumes "reachable s" and "u \<in> set (users s)"
  shows "users (deleteUser (users_id u) s) = removeAll u (users s) \<and>
         predictions (deleteUser (users_id u) s) =
           filter (\<lambda>p. predictions_user_id p \<noteq> users_id u) (predictions s)"
proof -
  from assms(1) have "distinct (map users_id (users s))"
    using reachable_primary_key_ok by (simp add: primary_key_ok_def)
  from this assms(2)
  have "filter (\<lambda>x. users_id x \<noteq> users_id u) (users s) = removeAll u (users s)"
    by (rule filter_other_key_removeAll)
  then show ?thesis by (simp add: deleteUser_def)
qed

theorem deleteUser_cascade_witness:
  "reachable store_two \<and> row_ann \<in> set (users store_two) \<and>
   map users_username (users (deleteUser 1 store_two)) = [''bob''] \<and>
   predictions (deleteUser 1 store_two) = [prediction_at 2 2 7 200]"
proof -
  have mem: "row_ann \<in> set (users store_two)"
    by (simp add: users_store_two)
  have uid: "users_id row_ann = 1" by (simp add: row_ann_def)
  from deleteUser_cascade [OF reachable_store_two mem]
  have "users (deleteUser 1 store_two) = removeAll row_ann (users store_two)"
    and "predictions (deleteUser 1 store_two) =
           filter (\<lambda>p. predictions_user_id p \<noteq> 1) (predictions store_two)"
    by (simp_all add: uid)
  then have "map users_username (users (deleteUser 1 store_two)) = [''bob'']"
    and "predictions (deleteUser 1 store_two) = [prediction_at 2 2 7 200]"
    by (simp_all add: users_store_two row_ann_def predictions_store_two prediction_at_def)
  with mem reachable_store_two show ?thesis by simp
qed

subsection \<open>Unique usernames and emails\<close>

text \<open>
  Claim C3, as stated, asks for \<open>DuplicateUsername\<close> whenever the username is taken and for
  \<open>DuplicateEmail\<close> whenever the email is taken. An insert reports one violated constraint,
  so when username and email are both taken one of the two halves fails, whichever
  constraint the store reports.
\<close>

theorem createUser_both_taken_counterexample:
  "''ann'' \<in> users_username ` set (users store_ann) \<and>
   ''ann@example.org'' \<in> users_email ` set (users store_ann) \<and>
   fst (createUser UsernameFirst 5 ''ann'' ''ann@example.org'' ''h3'' store_ann)
     \<noteq> Inl DuplicateEmail \<and>
   fst (createUser EmailFirst 5 ''ann'' ''ann@example.org'' ''h3'' store_ann)
     \<noteq> Inl DuplicateUsername"
  by (simp add: users_store_ann row_ann_def createUser_def)

text \<open>
  This does not hang on how the store is modelled: whatever an insert returns when both
  are taken, it is not both errors.
\<close>

lemma no_result_meets_both_errors:
  fixes f :: "nat \<Rightarrow> string \<Rightarrow> string \<Rightarrow> string \<Rightarrow> store \<Rightarrow> (store_error + int) \<times> store"
  shows "\<not> (\<forall>now username email passwordHash s.
              (username \<in> users_username ` set (users s) \<longrightarrow>
                 fst (f now username email passwordHash s) = Inl DuplicateUsername) \<and>
              (email \<in> users_email ` set (users s) \<longrightarrow>
                 fst (f now username email passwordHash s) = Inl DuplicateEmail))"
proof
  assume both: "\<forall>now username email passwordHash s.
              (username \<in> users_username ` set (users s) \<longrightarrow>
                 fst (f now username email passwordHash s) = Inl DuplicateUsername) \<and>
              (email \<in> users_email ` set (users s) \<longrightarrow>
                 fst (f now username email passwordHash s) = Inl DuplicateEmail)"
  have "''ann'' \<in> users_username ` set (users store_ann)"
    and "''ann@example.org'' \<in> users_email ` set (users store_ann)"
    by (simp_all add: users_store_ann row_ann_def)
  with both have "fst (f 5 ''ann'' ''ann@example.org'' ''h3'' store_ann) = Inl DuplicateUsername"
    and "fst (f 5 ''ann'' ''ann@example.org'' ''h3'' store_ann) = Inl DuplicateEmail"
    by blast+
  then show False by simp
qed

text \<open>
  Claim C3, amended. For every store state and whichever constraint the store reports
  first: \<open>createUser\<close> with a username some row of \<open>users\<close> has and an email no row has
  fails with \<open>DuplicateUsername\<close>; with an email some row has and a username no row has it
  fails with \<open>DuplicateEmail\<close>; with both taken it fails with one of the two; and in each
  of these cases the store, and so the \<open>users\<close> table, is returned unchanged.
\<close>

theorem createUser_duplicate:
  "(username \<in> users_username ` set (users s) \<and> email \<notin> users_email ` set (users s) \<longrightarrow>
      createUser reported now username email passwordHash s = (Inl DuplicateUsername, s)) \<and>
   (username \<notin> users_username ` set (users s) \<and> email \<in> users_email ` set (users s) \<longrightarrow>
      createUser reported now username email passwordHash s = (Inl DuplicateEmail, s)) \<and>
   (username \<in> users_username ` set (users s) \<and> email \<in> users_email ` set (users s) \<longrightarrow>
      createUser reported now username email passwordHash s = (Inl DuplicateUsername, s) \<or>
      createUser reported now username email passwordHash s = (Inl DuplicateEmail, s))"
  by (cases reported) (simp_all add: createUser_def)

theorem createUser_duplicate_witness:
  "''ann'' \<in> users_username ` set (users store_ann) \<and>
   ''new@example.org'' \<notin> users_email ` set (users store_ann) \<and>
   createUser EmailFirst 5 ''ann'' ''new@example.org'' ''h3'' store_ann
     = (Inl DuplicateUsername, store_ann) \<and>
   ''amy'' \<notin> users_username ` set (users store_ann) \<and>
   ''ann@example.org'' \<in> users_email ` set (users store_ann) \<and>
   createUser UsernameFirst 5 ''amy'' ''ann@example.org'' ''h3'' store_ann
     = (Inl DuplicateEmail, store_ann) \<and>
   (createUser EmailFirst 5 ''ann'' ''ann@example.org'' ''h3'' store_ann
      = (Inl DuplicateUsername, store_ann) \<or>
    createUser EmailFirst 5 ''ann'' ''ann@example.org'' ''h3'' store_ann
      = (Inl DuplicateEmail, store_ann))"
proof -
  have a: "''ann'' \<in> users_username ` set (users store_ann)"
    and a': "''new@example.org'' \<notin> users_email ` set (users store_ann)"
    and b: "''amy'' \<notin> users_username ` set (users store_ann)"
    and c: "''ann@example.org'' \<in> users_email ` set (users store_ann)"
    by (simp_all add: users_store_ann row_ann_def)
  from createUser_duplicate
         [of "''ann''" store_ann "''new@example.org''" EmailFirst 5 "''h3''"] a a'
  have "createUser EmailFirst 5 ''ann'' ''new@example.org'' ''h3'' store_ann
     = (Inl DuplicateUsername, store_ann)"
    by blast
  moreover from createUser_duplicate
         [of "''amy''" store_ann "''ann@example.org''" UsernameFirst 5 "''h3''"] b c
  have "createUser UsernameFirst 5 ''amy'' ''ann@example.org'' ''h3'' store_ann
     = (Inl DuplicateEmail, store_ann)"
    by blast
  moreover from createUser_duplicate
         [of "''ann''" store_ann "''ann@example.org''" EmailFirst 5 "''h3''"] a c
  have "createUser EmailFirst 5 ''ann'' ''ann@example.org'' ''h3'' store_ann
      = (Inl DuplicateUsername, store_ann) \<or>
    createUser EmailFirst 5 ''ann'' ''ann@example.org'' ''h3'' store_ann
      = (Inl DuplicateEmail, store_ann)"
    by blast
  ultimately show ?thesis using a a' b c by blast
qed

subsection \<open>Listing a user's predictions\<close>

text \<open>
  Claim C4. For every store state and every \<open>userId\<close>, \<open>listPredictionsForUser\<close> returns
  exactly the rows of \<open>predictions\<close> whose \<open>user_id\<close> is \<open>userId\<close>, each as often as the table
  holds it, in non-decreasing order of \<open>created_at\<close>.
\<close>

theorem listPredictionsForUser_sorted:
  "mset (listPredictionsForUser userId s) =
     filter_mset (\<lambda>p. predictions_user_id p = userId) (mset (predictions s)) \<and>
   sorted (map predictions_created_at (listPredictionsForUser userId s))"
  by (simp add: listPredictionsForUser_def)

lemma listPredictionsForUser_example:
  "listPredictionsForUser 1 store_two = [prediction_at 3 1 8 300, prediction_at 1 1 9 100]"
  by (simp add: listPredictionsForUser_def predictions_store_two prediction_at_def)

section \<open>Properties of the client script\<close>

subsection \<open>The matcher decides the language of a pattern\<close>

lemma star_Cons_iff:
  "c # w \<in> star A \<longleftrightarrow> (\<exists>u v. w = u @ v \<and> c # u \<in> A \<and> v \<in> star A)"
proof
  assume "c # w \<in> star A"
  then show "\<exists>u v. w = u @ v \<and> c # u \<in> A \<and> v \<in> star A"
  proof (induction "c # w" rule: star.induct)
    case (star_append u v)
    show ?case
    proof (cases u)
      case Nil
      with star_append show ?thesis by simp
    next
      case (Cons d u')
      with star_append.hyps have "w = u' @ v" and "c # u' \<in> A" and "v \<in> star A"
        by auto
      then show ?thesis by blast
    qed
  qed
next
  assume "\<exists>u v. w = u @ v \<and> c # u \<in> A \<and> v \<in> star A"
  then obtain u v where "w = u @ v" and "c # u \<in> A" and "v \<in> star A" by blast
  then have "(c # u) @ v \<in> star A" by (intro star.star_append)
  with \<open>w = u @ v\<close> show "c # w \<in> star A" by simp
qed

lemma nullable_lang: "nullable r \<longleftrightarrow> [] \<in> lang r"
  by (induction r) (auto intro: star.star_empty)

lemma lang_deriv: "lang (deriv c r) = {w. c # w \<in> lang r}"
proof (induction r)
  case (Seq r s)
  have "w \<in> lang (deriv c (Seq r s)) \<longleftrightarrow> c # w \<in> lang (Seq r s)" for w
  proof -
    have "c # w \<in> lang (Seq r s) \<longleftrightarrow>
          ([] \<in> lang r \<and> c # w \<in> lang s) \<or>
          (\<exists>u' v. w = u' @ v \<and> c # u' \<in> lang r \<and> v \<in> lang s)"
      by (auto simp: Cons_eq_append_conv)
    also have "\<dots> \<longleftrightarrow> w \<in> lang (deriv c (Seq r s))"
      using Seq.IH by (auto simp: nullable_lang)
    finally show ?thesis by simp
  qed
  then show ?case by blast
next
  case (Star r)
  have "w \<in> lang (deriv c (Star r)) \<longleftrightarrow> c # w \<in> lang (Star r)" for w
    using Star.IH by (auto simp: star_Cons_iff)
  then show ?case by blast
qed auto

lemma test_lang: "test r w \<longleftrightarrow> w \<in> lang r"
  by (induction w arbitrary: r) (simp_all add: nullable_lang lang_deriv)

lemma star_of_class: "star {[c] | c. P c} = {w. list_all P w}"
proof (intro set_eqI iffI)
  fix w
  assume "w \<in> star {[c] | c. P c}"
  then show "w \<in> {w. list_all P w}"
    by (induction rule: star.induct) auto
next
  fix w
  assume "w \<in> {w. list_all P w}"
  then have "list_all P w" by simp
  then show "w \<in> star {[c] | c. P c}"
  proof (induction w)
    case Nil
    show ?case by (rule star.star_empty)
  next
    case (Cons c w)
    then have "[c] \<in> {[c] | c. P c}" and "w \<in> star {[c] | c. P c}" by auto
    then have "[c] @ w \<in> star {[c] | c. P c}" by (rule star.star_append)
    then show ?case by simp
  qed
qed

lemma lang_Plus_class:
  "lang (Plus (NotOneOf items)) =
     {w. w \<noteq> [] \<and> list_all (\<lambda>c. \<not> list_ex (\<lambda>i. item_matches i c) items) w}"
proof (intro set_eqI iffI)
  let ?P = "\<lambda>c. \<not> list_ex (\<lambda>i. item_matches i c) items"
  have star_class: "star (lang (NotOneOf items)) = {w. list_all ?P w}"
    using star_of_class [of ?P] by simp
  {
    fix w
    assume "w \<in> lang (Plus (NotOneOf items))"
    then obtain u v where w: "w = u @ v" and u: "u \<in> lang (NotOneOf items)"
      and v: "v \<in> star (lang (NotOneOf items))"
      by (auto simp: Plus_def)
    from u obtain c where "u = [c]" and "?P c" by auto
    moreover from v have "list_all ?P v" unfolding star_class by simp
    ultimately show "w \<in> {w. w \<noteq> [] \<and> list_all ?P w}" using w by simp
  next
    fix w
    assume "w \<in> {w. w \<noteq> [] \<and> list_all ?P w}"
    then obtain c v where w: "w = c # v" and "?P c" and "list_all ?P v"
      by (cases w) auto
    then have "[c] \<in> lang (NotOneOf items)" and "v \<in> star (lang (NotOneOf items))"
      unfolding star_class by simp_all
    then have "\<exists>u' v'. [c] @ v = u' @ v' \<and> u' \<in> lang (NotOneOf items) \<and>
                 v' \<in> star (lang (NotOneOf items))"
      by blast
    then show "w \<in> lang (Plus (NotOneOf items))" using w by (simp add: Plus_def)
  }
qed

lemma lang_email_part: "lang (Plus (NotOneOf [Space, Single 0x40])) = {w. email_part w}"
  by (simp add: lang_Plus_class email_part_def)

lemma lang_emailRegex: "w \<in> lang emailRegex \<longleftrightarrow> local_at_domain_dot_tld w"
proof -
  have "w \<in> lang emailRegex \<longleftrightarrow>
        (\<exists>l d t. w = l @ [0x40] @ d @ [0x2E] @ t \<and> email_part l \<and> email_part d \<and> email_part t)"
    unfolding emailRegex_def lang.simps(6) lang_email_part lang.simps(3) by blast
  then show ?thesis by (simp add: local_at_domain_dot_tld_def)
qed

lemma test_emailRegex: "test emailRegex s \<longleftrightarrow> local_at_domain_dot_tld s"
  by (simp add: test_lang lang_emailRegex)

subsection \<open>Numbers and class tokens\<close>

lemma is_valid_neq_is_invalid: "lit ''is-valid'' \<noteq> lit ''is-invalid''"
  by (simp add: lit_def)

lemma js_range_cases:
  assumes "lo \<le> hi"
  shows "(js_lt a (Fin lo) \<or> js_gt a (Fin hi)) \<and> \<not> (js_ge a (Fin lo) \<and> js_le a (Fin hi)) \<and> a \<noteq> NaN
       \<or> \<not> (js_lt a (Fin lo) \<or> js_gt a (Fin hi)) \<and> (js_ge a (Fin lo) \<and> js_le a (Fin hi)) \<and> a \<noteq> NaN
       \<or> \<not> (js_lt a (Fin lo) \<or> js_gt a (Fin hi)) \<and> \<not> (js_ge a (Fin lo) \<and> js_le a (Fin hi)) \<and> a = NaN"
  using assms by (cases a) (auto simp: js_gt_def js_ge_def js_le_def)

text \<open>
  A check of the rounding: an integer of magnitude up to \<open>2\<^sup>5\<^sup>3\<close> is a double, and
  \<open>round_to_double\<close> returns it.
\<close>

lemma bit_length_bounds:
  "0 < n \<Longrightarrow> 0 < bit_length n \<and> 2 ^ nat (bit_length n - 1) \<le> n \<and> n < 2 ^ nat (bit_length n)"
proof (induction n rule: bit_length.induct)
  case (1 n)
  show ?case
  proof (cases "n div 2 = 0")
    case True
    with "1.prems" have "n = 1" by presburger
    then show ?thesis by (simp add: bit_length.simps)
  next
    case False
    with "1.prems" have pos: "0 < n div 2" and "\<not> n \<le> 0" by presburger+
    from "1.IH" [OF \<open>\<not> n \<le> 0\<close> pos]
    have b: "0 < bit_length (n div 2)"
      and lo: "2 ^ nat (bit_length (n div 2) - 1) \<le> n div 2"
      and hi: "n div 2 < 2 ^ nat (bit_length (n div 2))"
      by simp_all
    have len: "bit_length n = bit_length (n div 2) + 1"
      using \<open>\<not> n \<le> 0\<close> by (subst bit_length.simps) simp
    from b have step: "nat (bit_length (n div 2)) = Suc (nat (bit_length (n div 2) - 1))"
      by simp
    have "2 ^ nat (bit_length (n div 2)) \<le> n"
    proof -
      from lo have "2 * 2 ^ nat (bit_length (n div 2) - 1) \<le> 2 * (n div 2)" by simp
      also have "\<dots> \<le> n" by presburger
      finally show ?thesis by (subst step) simp
    qed
    moreover have "n < 2 ^ nat (bit_length (n div 2) + 1)"
    proof -
      from b have "nat (bit_length (n div 2) + 1) = Suc (nat (bit_length (n div 2)))" by simp
      moreover from hi have "n < 2 * 2 ^ nat (bit_length (n div 2))" by presburger
      ultimately show ?thesis by simp
    qed
    ultimately show ?thesis using b len by simp
  qed
qed

lemma floor_log2_of_int: "0 < n \<Longrightarrow> floor_log2 (of_int n) = bit_length n - 1"
  by (simp add: floor_log2_def)

lemma round_half_even_of_int: "round_half_even (of_int k) = k"
  by (simp add: round_half_even_def)

lemma round_to_double_nat_exact:
  assumes "0 < a" and "a \<le> 2 ^ 53"
  shows "round_to_double (of_int a) = Fin (of_int a)"
    and "round_to_double (of_int (- a)) = Fin (of_int (- a))"
proof -
  define e where "e = bit_length a - 1"
  from bit_length_bounds [OF assms(1)]
  have e0: "0 \<le> e" and lo: "2 ^ nat e \<le> a" and hi: "a < 2 ^ nat (e + 1)"
    by (simp_all add: e_def)
  have e53: "e \<le> 53"
  proof (rule ccontr)
    assume "\<not> e \<le> 53"
    then have "54 \<le> nat e" by simp
    then have "(2::int) ^ 54 \<le> 2 ^ nat e" by (intro power_increasing) simp_all
    with lo assms(2) show False by simp
  qed
  have fl: "floor_log2 (of_int a) = e"
    using assms(1) by (simp add: floor_log2_of_int e_def)
  have v: "rat_of_int (round_half_even (of_int a / pow2 (e - 52))) * pow2 (e - 52) = of_int a"
  proof (cases "e \<le> 52")
    case True
    then have p: "pow2 (e - 52) = 1 / 2 ^ nat (52 - e)"
      by (cases "e = 52") (simp_all add: pow2_def)
    have "rat_of_int a / pow2 (e - 52) = of_int (a * 2 ^ nat (52 - e))"
      by (simp add: p)
    then show ?thesis
      by (simp only: round_half_even_of_int) (simp add: p)
  next
    case False
    with e53 have e: "e = 53" by simp
    with lo assms(2) have a: "a = 2 ^ 53" by simp
    have p: "pow2 (e - 52) = 2" by (simp add: e pow2_def)
    have "rat_of_int a / pow2 (e - 52) = of_int (2 ^ 52)"
      by (simp add: p a)
    then show ?thesis
      by (simp only: round_half_even_of_int) (simp add: p a)
  qed
  have emax: "max e (- 1022) = e" using e0 by simp
  from assms(1) have nz: "rat_of_int a \<noteq> 0" and abs: "\<bar>rat_of_int a\<bar> = of_int a" by simp_all
  have small: "\<not> 1024 \<le> e"
    using e53 by simp
  show "round_to_double (of_int a) = Fin (of_int a)"
    using assms(1) unfolding round_to_double_def Let_def abs fl emax v
    by (simp add: small)
  from assms(1) have abs': "\<bar>rat_of_int (- a)\<bar> = of_int a" by simp
  show "round_to_double (of_int (- a)) = Fin (of_int (- a))"
    using assms(1) unfolding round_to_double_def Let_def abs' fl emax v
    by (simp add: small)
qed

lemma round_to_double_int_exact:
  "\<bar>n\<bar> \<le> 2 ^ 53 \<Longrightarrow> round_to_double (of_int n) = Fin (of_int n)"
proof -
  assume bound: "\<bar>n\<bar> \<le> 2 ^ 53"
  consider "n = 0" | "0 < n" | "n < 0" by linarith
  then show ?thesis
  proof cases
    case 1
    then show ?thesis by (simp add: round_to_double_def)
  next
    case 2
    with bound show ?thesis by (intro round_to_double_nat_exact(1)) simp_all
  next
    case 3
    with bound have "0 < - n" and "- n \<le> 2 ^ 53" by simp_all
    then have "round_to_double (of_int (- (- n))) = Fin (of_int (- (- n)))"
      by (rule round_to_double_nat_exact(2))
    then show ?thesis by simp
  qed
qed

lemma parse_blank:
  assumes "list_all is_space s"
  shows "parseInt s = NaN" and "parseFloat s = NaN"
proof -
  from assms have blank: "dropWhile is_space s = []"
    by (simp add: list_all_iff)
  show "parseInt s = NaN"
    unfolding parseInt_def blank by (simp add: strip_sign_def lit_def)
  show "parseFloat s = NaN"
    unfolding parseFloat_def blank by (simp add: strip_sign_def lit_def)
qed

text \<open>
  The parsers on some values: a fraction or a suffix is cut off by \<open>parseInt\<close>, \<open>0x\<close> makes
  the radix 16, and a decimal text within half a unit in the last place of 50 is 50.
\<close>

lemma parseInt_examples:
  "parseInt (lit ''17.9'') = Fin 17"
  "parseInt (lit '' 100 years'') = Fin 100"
  "parseInt (lit ''0x20'') = Fin 32"
  "parseInt (lit ''-5'') = Fin (- 5)"
  "parseInt (lit ''abc'') = NaN"
  by code_simp+

lemma parseFloat_examples:
  "parseFloat (lit ''.5'') = Fin (1 / 2)"
  "parseFloat (lit ''1e2'') = Fin 100"
  "parseFloat (lit ''18.5kg'') = Fin (37 / 2)"
  "parseFloat (lit ''50.000000000000000000001'') = Fin 50"
  "parseFloat (lit ''Infinity'') = Infinity"
  "parseFloat (lit ''abc'') = NaN"
  by code_simp+

lemma parseInt_17: "parseInt (lit ''17'') = Fin 17"
  by code_simp

lemma parseInt_45: "parseInt (lit ''45'') = Fin 45"
  by code_simp

lemma parseFloat_52: "parseFloat (lit ''52'') = Fin 52"
  by code_simp

lemma parseFloat_22_4: "parseFloat (lit ''22.4'') = Fin (3152519739159347 / 140737488355328)"
  by code_simp

subsection \<open>What a validator does to a control\<close>

lemma validateAge_invalid:
  assumes "js_lt (parseInt (el_value input)) (Fin 18) \<or> js_gt (parseInt (el_value input)) (Fin 100)"
  shows "classList (validateAge input) =
           removeAll (lit ''is-valid'')
             (if lit ''is-invalid'' \<in> set (classList input) then classList input
              else classList input @ [lit ''is-invalid''])"
    and "feedback (validateAge input) = Some (lit ''Age must be between 18 and 100 years.'')"
  using assms
  by (simp_all add: validateAge_def Let_def classList_add_def classList_remove_def
      feedback_or_create_def createFeedbackElement_def split: option.split)

lemma validateAge_valid:
  assumes "\<not> (js_lt (parseInt (el_value input)) (Fin 18) \<or> js_gt (parseInt (el_value input)) (Fin 100))"
    and "js_ge (parseInt (el_value input)) (Fin 18) \<and> js_le (parseInt (el_value input)) (Fin 100)"
  shows "classList (validateAge input) =
           removeAll (lit ''is-invalid'')
             (if lit ''is-valid'' \<in> set (classList input) then classList input
              else classList input @ [lit ''is-valid''])"
    and "feedback (validateAge input) = Some []"
  using assms
  by (simp_all add: validateAge_def Let_def classList_add_def classList_remove_def
      feedback_or_create_def createFeedbackElement_def split: option.split)

lemma validateAge_neither:
  assumes "\<not> (js_lt (parseInt (el_value input)) (Fin 18) \<or> js_gt (parseInt (el_value input)) (Fin 100))"
    and "\<not> (js_ge (parseInt (el_value input)) (Fin 18) \<and> js_le (parseInt (el_value input)) (Fin 100))"
  shows "validateAge input = feedback_or_create input"
  using assms by (auto simp add: validateAge_def Let_def)

lemma validateBMI_invalid:
  assumes "js_lt (parseFloat (el_value input)) (Fin 10) \<or> js_gt (parseFloat (el_value input)) (Fin 50)"
  shows "classList (validateBMI input) =
           removeAll (lit ''is-valid'')
             (if lit ''is-invalid'' \<in> set (classList input) then classList input
              else classList input @ [lit ''is-invalid''])"
    and "feedback (validateBMI input) = Some (lit ''BMI must be between 10 and 50.'')"
  using assms
  by (simp_all add: validateBMI_def Let_def classList_add_def classList_remove_def
      feedback_or_create_def createFeedbackElement_def split: option.split)

lemma validateBMI_valid:
  assumes "\<not> (js_lt (parseFloat (el_value input)) (Fin 10) \<or> js_gt (parseFloat (el_value input)) (Fin 50))"
    and "js_ge (parseFloat (el_value input)) (Fin 10) \<and> js_le (parseFloat (el_value input)) (Fin 50)"
  shows "classList (validateBMI input) =
           removeAll (lit ''is-invalid'')
             (if lit ''is-valid'' \<in> set (classList input) then classList input
              else classList input @ [lit ''is-valid''])"
    and "feedback (validateBMI input) = Some (getBMICategory (parseFloat (el_value input)))"
  using assms
  by (simp_all add: validateBMI_def Let_def classList_add_def classList_remove_def
      feedback_or_create_def createFeedbackElement_def split: option.split)

lemma validateBMI_neither:
  assumes "\<not> (js_lt (parseFloat (el_value input)) (Fin 10) \<or> js_gt (parseFloat (el_value input)) (Fin 50))"
    and "\<not> (js_ge (parseFloat (el_value input)) (Fin 10) \<and> js_le (parseFloat (el_value input)) (Fin 50))"
  shows "validateBMI input = feedback_or_create input"
  using assms by (auto simp add: validateBMI_def Let_def)

lemma feedback_or_create_same:
  "classList (feedback_or_create input) = classList input"
  "textContent (feedback_or_create input) = textContent input"
  "borderColor (feedback_or_create input) = borderColor input"
  "el_value (feedback_or_create input) = el_value input"
  by (simp_all add: feedback_or_create_def createFeedbackElement_def textContent_def
      split: option.split)

lemma validateEmail_invalid:
  assumes "\<not> test emailRegex (el_value input)"
  shows "classList (validateEmail input) =
           removeAll (lit ''is-valid'')
             (if lit ''is-invalid'' \<in> set (classList input) then classList input
              else classList input @ [lit ''is-invalid''])"
    and "feedback (validateEmail input) = Some (lit ''Please enter a valid email address.'')"
  using assms
  by (simp_all add: validateEmail_def Let_def classList_add_def classList_remove_def
      feedback_or_create_def createFeedbackElement_def split: option.split)

lemma validateEmail_valid:
  assumes "test emailRegex (el_value input)"
  shows "classList (validateEmail input) =
           removeAll (lit ''is-invalid'')
             (if lit ''is-valid'' \<in> set (classList input) then classList input
              else classList input @ [lit ''is-valid''])"
    and "feedback (validateEmail input) = Some []"
  using assms
  by (simp_all add: validateEmail_def Let_def classList_add_def classList_remove_def
      feedback_or_create_def createFeedbackElement_def split: option.split)

subsection \<open>Age validation\<close>

text \<open>
  Claim C5. For every control, with \<open>age\<close> the result of \<open>parseInt\<close> on its value:
  when \<open>age < 18\<close> or \<open>age > 100\<close>, \<open>validateAge\<close> leaves the control with the class
  \<open>is-invalid\<close>, without \<open>is-valid\<close>, and with the feedback text
  \<open>Age must be between 18 and 100 years.\<close>; when \<open>age\<close> lies in \<open>[18, 100]\<close> it leaves the
  control with \<open>is-valid\<close>, without \<open>is-invalid\<close>, and with an empty feedback text; and when
  the first condition fails, neither the class \<open>is-invalid\<close> nor that message is there
  afterwards unless it was there before.
\<close>

theorem validateAge_range:
  fixes input :: element
  defines "age \<equiv> parseInt (el_value input)"
    and "after \<equiv> validateAge input"
  shows "(js_lt age (Fin 18) \<or> js_gt age (Fin 100) \<longrightarrow>
            lit ''is-invalid'' \<in> set (classList after) \<and>
            lit ''is-valid'' \<notin> set (classList after) \<and>
            textContent after = lit ''Age must be between 18 and 100 years.'') \<and>
         (js_ge age (Fin 18) \<and> js_le age (Fin 100) \<longrightarrow>
            lit ''is-valid'' \<in> set (classList after) \<and>
            lit ''is-invalid'' \<notin> set (classList after) \<and>
            textContent after = []) \<and>
         (\<not> (js_lt age (Fin 18) \<or> js_gt age (Fin 100)) \<longrightarrow>
            (lit ''is-invalid'' \<in> set (classList after) \<longrightarrow>
               lit ''is-invalid'' \<in> set (classList input)) \<and>
            (textContent after = lit ''Age must be between 18 and 100 years.'' \<longrightarrow>
               textContent input = lit ''Age must be between 18 and 100 years.''))"
proof -
  note neq = is_valid_neq_is_invalid
  have msg: "lit ''Age must be between 18 and 100 years.'' \<noteq> []"
    by (simp add: lit_def)
  from js_range_cases [of 18 100 age]
  consider
    (invalid) "js_lt age (Fin 18) \<or> js_gt age (Fin 100)"
      "\<not> (js_ge age (Fin 18) \<and> js_le age (Fin 100))"
  | (valid) "\<not> (js_lt age (Fin 18) \<or> js_gt age (Fin 100))"
      "js_ge age (Fin 18) \<and> js_le age (Fin 100)"
  | (neither) "\<not> (js_lt age (Fin 18) \<or> js_gt age (Fin 100))"
      "\<not> (js_ge age (Fin 18) \<and> js_le age (Fin 100))"
    by fastforce
  then show ?thesis
  proof cases
    case invalid
    from invalid(1) have "classList after =
           removeAll (lit ''is-valid'')
             (if lit ''is-invalid'' \<in> set (classList input) then classList input
              else classList input @ [lit ''is-invalid''])"
      and "feedback after = Some (lit ''Age must be between 18 and 100 years.'')"
      unfolding age_def after_def by (rule validateAge_invalid)+
    with invalid neq show ?thesis by (auto simp: textContent_def)
  next
    case valid
    from valid have "classList after =
           removeAll (lit ''is-invalid'')
             (if lit ''is-valid'' \<in> set (classList input) then classList input
              else classList input @ [lit ''is-valid''])"
      and "feedback after = Some []"
      unfolding age_def after_def by (rule validateAge_valid)+
    with valid neq msg show ?thesis by (auto simp: textContent_def)
  next
    case neither
    then have "after = feedback_or_create input"
      unfolding age_def after_def by (rule validateAge_neither)
    with neither show ?thesis by (auto simp: feedback_or_create_same)
  qed
qed

theorem validateAge_range_witness:
  "js_lt (parseInt (lit ''17'')) (Fin 18) \<and>
   lit ''is-invalid'' \<in> set (classList (validateAge (age_input (lit ''17'')))) \<and>
   lit ''is-valid'' \<notin> set (classList (validateAge (age_input (lit ''17'')))) \<and>
   textContent (validateAge (age_input (lit ''17''))) =
     lit ''Age must be between 18 and 100 years.'' \<and>
   js_ge (parseInt (lit ''45'')) (Fin 18) \<and> js_le (parseInt (lit ''45'')) (Fin 100) \<and>
   lit ''is-valid'' \<in> set (classList (validateAge (age_input (lit ''45'')))) \<and>
   lit ''is-invalid'' \<notin> set (classList (validateAge (age_input (lit ''45'')))) \<and>
   textContent (validateAge (age_input (lit ''45''))) = []"
proof -
  have young: "js_lt (parseInt (el_value (age_input (lit ''17'')))) (Fin 18)"
    by (simp add: age_input_def parseInt_17)
  have adult: "js_ge (parseInt (el_value (age_input (lit ''45'')))) (Fin 18)"
    "js_le (parseInt (el_value (age_input (lit ''45'')))) (Fin 100)"
    by (simp_all add: age_input_def parseInt_45 js_ge_def js_le_def)
  from validateAge_range [of "age_input (lit ''17'')"] young
       validateAge_range [of "age_input (lit ''45'')"] adult
  show ?thesis by (simp add: age_input_def)
qed

subsection \<open>BMI validation\<close>

text \<open>
  Claim C6. For every control, with \<open>bmi\<close> the result of \<open>parseFloat\<close> on its value:
  when \<open>bmi < 10\<close> or \<open>bmi > 50\<close>, \<open>validateBMI\<close> rejects (class \<open>is-invalid\<close>, not \<open>is-valid\<close>,
  feedback text \<open>BMI must be between 10 and 50.\<close>); when \<open>bmi\<close> lies in \<open>[10, 50]\<close> it
  accepts (class \<open>is-valid\<close>, not \<open>is-invalid\<close>) and the feedback text is
  \<open>getBMICategory(bmi)\<close>; and for every number \<open>b\<close>, \<open>getBMICategory(b)\<close> is \<open>Underweight\<close>
  when \<open>b < 18.5\<close>, \<open>Normal weight\<close> when \<open>18.5 \<le> b < 25\<close>, \<open>Overweight\<close> when
  \<open>25 \<le> b < 30\<close> and \<open>Obese\<close> when \<open>b \<ge> 30\<close>.
\<close>

theorem validateBMI_range:
  fixes input :: element
  defines "bmi \<equiv> parseFloat (el_value input)"
    and "after \<equiv> validateBMI input"
  shows "(js_lt bmi (Fin 10) \<or> js_gt bmi (Fin 50) \<longrightarrow>
            lit ''is-invalid'' \<in> set (classList after) \<and>
            lit ''is-valid'' \<notin> set (classList after) \<and>
            textContent after = lit ''BMI must be between 10 and 50.'') \<and>
         (js_ge bmi (Fin 10) \<and> js_le bmi (Fin 50) \<longrightarrow>
            lit ''is-valid'' \<in> set (classList after) \<and>
            lit ''is-invalid'' \<notin> set (classList after) \<and>
            textContent after = getBMICategory bmi) \<and>
         (\<forall>b. (js_lt b (Fin (37 / 2)) \<longrightarrow> getBMICategory b = lit ''Underweight'') \<and>
              (js_ge b (Fin (37 / 2)) \<and> js_lt b (Fin 25) \<longrightarrow>
                 getBMICategory b = lit ''Normal weight'') \<and>
              (js_ge b (Fin 25) \<and> js_lt b (Fin 30) \<longrightarrow> getBMICategory b = lit ''Overweight'') \<and>
              (js_ge b (Fin 30) \<longrightarrow> getBMICategory b = lit ''Obese''))"
proof (intro conjI impI allI)
  note neq = is_valid_neq_is_invalid
  {
    assume invalid: "js_lt bmi (Fin 10) \<or> js_gt bmi (Fin 50)"
    then have "classList after =
           removeAll (lit ''is-valid'')
             (if lit ''is-invalid'' \<in> set (classList input) then classList input
              else classList input @ [lit ''is-invalid''])"
      and fb: "feedback after = Some (lit ''BMI must be between 10 and 50.'')"
      unfolding bmi_def after_def by (rule validateBMI_invalid)+
    with neq show "lit ''is-invalid'' \<in> set (classList after)"
      and "lit ''is-valid'' \<notin> set (classList after)"
      by auto
    from fb show "textContent after = lit ''BMI must be between 10 and 50.''"
      by (simp add: textContent_def)
  }
  {
    assume valid: "js_ge bmi (Fin 10) \<and> js_le bmi (Fin 50)"
    with js_range_cases [of 10 50 bmi]
    have "\<not> (js_lt bmi (Fin 10) \<or> js_gt bmi (Fin 50))" by fastforce
    from this valid have "classList after =
           removeAll (lit ''is-invalid'')
             (if lit ''is-valid'' \<in> set (classList input) then classList input
              else classList input @ [lit ''is-valid''])"
      and fb: "feedback after = Some (getBMICategory bmi)"
      unfolding bmi_def after_def by (rule validateBMI_valid)+
    with neq show "lit ''is-valid'' \<in> set (classList after)"
      and "lit ''is-invalid'' \<notin> set (classList after)"
      by auto
    from fb show "textContent after = getBMICategory bmi"
      by (simp add: textContent_def)
  }
  fix b
  show "getBMICategory b = lit ''Underweight''" if "js_lt b (Fin (37 / 2))"
    using that by (simp add: getBMICategory_def)
  show "getBMICategory b = lit ''Normal weight''" if "js_ge b (Fin (37 / 2)) \<and> js_lt b (Fin 25)"
    using that by (cases b) (auto simp: getBMICategory_def js_ge_def js_le_def)
  show "getBMICategory b = lit ''Overweight''" if "js_ge b (Fin 25) \<and> js_lt b (Fin 30)"
    using that by (cases b) (auto simp: getBMICategory_def js_ge_def js_le_def)
  show "getBMICategory b = lit ''Obese''" if "js_ge b (Fin 30)"
    using that by (cases b) (auto simp: getBMICategory_def js_ge_def js_le_def)
qed

theorem validateBMI_range_witness:
  "js_gt (parseFloat (lit ''52'')) (Fin 50) \<and>
   lit ''is-invalid'' \<in> set (classList (validateBMI (bmi_input (lit ''52'')))) \<and>
   lit ''is-valid'' \<notin> set (classList (validateBMI (bmi_input (lit ''52'')))) \<and>
   textContent (validateBMI (bmi_input (lit ''52''))) = lit ''BMI must be between 10 and 50.'' \<and>
   js_ge (parseFloat (lit ''22.4'')) (Fin 10) \<and> js_le (parseFloat (lit ''22.4'')) (Fin 50) \<and>
   js_ge (parseFloat (lit ''22.4'')) (Fin (37 / 2)) \<and> js_lt (parseFloat (lit ''22.4'')) (Fin 25) \<and>
   lit ''is-valid'' \<in> set (classList (validateBMI (bmi_input (lit ''22.4'')))) \<and>
   lit ''is-invalid'' \<notin> set (classList (validateBMI (bmi_input (lit ''22.4'')))) \<and>
   textContent (validateBMI (bmi_input (lit ''22.4''))) = lit ''Normal weight''"
proof -
  have high: "js_gt (parseFloat (el_value (bmi_input (lit ''52'')))) (Fin 50)"
    by (simp add: bmi_input_def parseFloat_52 js_gt_def)
  have normal: "js_ge (parseFloat (el_value (bmi_input (lit ''22.4'')))) (Fin 10)"
    "js_le (parseFloat (el_value (bmi_input (lit ''22.4'')))) (Fin 50)"
    "js_ge (parseFloat (el_value (bmi_input (lit ''22.4'')))) (Fin (37 / 2))"
    "js_lt (parseFloat (el_value (bmi_input (lit ''22.4'')))) (Fin 25)"
    by (simp_all add: bmi_input_def parseFloat_22_4 js_ge_def js_le_def)
  from validateBMI_range [of "bmi_input (lit ''52'')"] high
       validateBMI_range [of "bmi_input (lit ''22.4'')"] normal
  show ?thesis by (simp add: bmi_input_def)
qed

subsection \<open>Email validation\<close>

text \<open>
  Claim C7. For every control, \<open>validateEmail\<close> accepts (class \<open>is-valid\<close>, not
  \<open>is-invalid\<close>, empty feedback text) when its value has the shape \<open>local@domain.tld\<close>, and
  rejects (class \<open>is-invalid\<close>, not \<open>is-valid\<close>, feedback text
  \<open>Please enter a valid email address.\<close>) when it has not; the strings of that shape are
  exactly those that \<open>emailRegex\<close> matches.
\<close>

theorem validateEmail_shape:
  fixes input :: element
  defines "after \<equiv> validateEmail input"
  shows "(local_at_domain_dot_tld (el_value input) \<longrightarrow>
            lit ''is-valid'' \<in> set (classList after) \<and>
            lit ''is-invalid'' \<notin> set (classList after) \<and>
            textContent after = []) \<and>
         (\<not> local_at_domain_dot_tld (el_value input) \<longrightarrow>
            lit ''is-invalid'' \<in> set (classList after) \<and>
            lit ''is-valid'' \<notin> set (classList after) \<and>
            textContent after = lit ''Please enter a valid email address.'') \<and>
         (test emailRegex (el_value input) \<longleftrightarrow> local_at_domain_dot_tld (el_value input))"
proof (cases "test emailRegex (el_value input)")
  case True
  then have "classList after =
           removeAll (lit ''is-invalid'')
             (if lit ''is-valid'' \<in> set (classList input) then classList input
              else classList input @ [lit ''is-valid''])"
    and "feedback after = Some []"
    unfolding after_def by (rule validateEmail_valid)+
  with True is_valid_neq_is_invalid show ?thesis
    by (auto simp: textContent_def test_emailRegex)
next
  case False
  then have "classList after =
           removeAll (lit ''is-valid'')
             (if lit ''is-invalid'' \<in> set (classList input) then classList input
              else classList input @ [lit ''is-invalid''])"
    and "feedback after = Some (lit ''Please enter a valid email address.'')"
    unfolding after_def by (rule validateEmail_invalid)+
  with False is_valid_neq_is_invalid show ?thesis
    by (auto simp: textContent_def test_emailRegex)
qed

theorem validateEmail_shape_witness:
  "\<not> local_at_domain_dot_tld (lit ''a@b'') \<and>
   lit ''is-invalid'' \<in> set (classList (validateEmail (email_input (lit ''a@b'')))) \<and>
   lit ''is-valid'' \<notin> set (classList (validateEmail (email_input (lit ''a@b'')))) \<and>
   local_at_domain_dot_tld (lit ''a@b.com'') \<and>
   lit ''is-valid'' \<in> set (classList (validateEmail (email_input (lit ''a@b.com'')))) \<and>
   lit ''is-invalid'' \<notin> set (classList (validateEmail (email_input (lit ''a@b.com''))))"
proof -
  have no_tld: "\<not> test emailRegex (lit ''a@b'')" by code_simp
  have full: "test emailRegex (lit ''a@b.com'')" by code_simp
  from validateEmail_shape [of "email_input (lit ''a@b'')"] no_tld
       validateEmail_shape [of "email_input (lit ''a@b.com'')"] full
  show ?thesis by (simp add: email_input_def)
qed

subsection \<open>Values that are not numbers\<close>

text \<open>
  Claim C10. For every control whose value \<open>parseInt\<close> turns into \<open>NaN\<close>, \<open>validateAge\<close>
  leaves the class list and the feedback text as they were; for every control whose value
  \<open>parseFloat\<close> turns into \<open>NaN\<close>, \<open>validateBMI\<close> leaves the class list, the feedback text
  and the border colour as they were (a feedback element that was missing is created,
  empty); and a value of white space only, the empty string among them, is turned into
  \<open>NaN\<close> by both. So neither validator flags a blank control.
\<close>

theorem validators_skip_NaN:
  "(parseInt (el_value input) = NaN \<longrightarrow>
      classList (validateAge input) = classList input \<and>
      textContent (validateAge input) = textContent input) \<and>
   (parseFloat (el_value input) = NaN \<longrightarrow>
      classList (validateBMI input) = classList input \<and>
      textContent (validateBMI input) = textContent input \<and>
      borderColor (validateBMI input) = borderColor input) \<and>
   (list_all is_space (el_value input) \<longrightarrow>
      parseInt (el_value input) = NaN \<and> parseFloat (el_value input) = NaN)"
proof (intro conjI impI)
  {
    assume nan: "parseInt (el_value input) = NaN"
    then have "validateAge input = feedback_or_create input"
      by (intro validateAge_neither) (simp_all add: js_gt_def js_ge_def js_le_def)
    then show "classList (validateAge input) = classList input"
      and "textContent (validateAge input) = textContent input"
      by (simp_all add: feedback_or_create_same)
  }
  {
    assume nan: "parseFloat (el_value input) = NaN"
    then have "validateBMI input = feedback_or_create input"
      by (intro validateBMI_neither) (simp_all add: js_gt_def js_ge_def js_le_def)
    then show "classList (validateBMI input) = classList input"
      and "textContent (validateBMI input) = textContent input"
      and "borderColor (validateBMI input) = borderColor input"
      by (simp_all add: feedback_or_create_same)
  }
  assume "list_all is_space (el_value input)"
  then show "parseInt (el_value input) = NaN" and "parseFloat (el_value input) = NaN"
    by (rule parse_blank)+
qed

theorem validators_skip_NaN_witness:
  "parseInt [] = NaN \<and> parseFloat [] = NaN \<and>
   classList (validateAge (age_input [])) = [lit ''form-control''] \<and>
   textContent (validateAge (age_input [])) = [] \<and>
   classList (validateBMI (bmi_input [])) = [lit ''form-control''] \<and>
   textContent (validateBMI (bmi_input [])) = [] \<and>
   borderColor (validateBMI (bmi_input [])) = []"
proof -
  have blank_age: "list_all is_space (el_value (age_input []))"
    and blank_bmi: "list_all is_space (el_value (bmi_input []))"
    by (simp_all add: age_input_def bmi_input_def)
  from validators_skip_NaN [of "age_input []"] blank_age
  have "parseInt [] = NaN" and "parseFloat [] = NaN"
    and "classList (validateAge (age_input [])) = [lit ''form-control'']"
    and "textContent (validateAge (age_input [])) = []"
    by (simp_all add: age_input_def textContent_def)
  moreover from validators_skip_NaN [of "bmi_input []"] blank_bmi
  have "classList (validateBMI (bmi_input [])) = [lit ''form-control'']"
    and "textContent (validateBMI (bmi_input [])) = []"
    and "borderColor (validateBMI (bmi_input [])) = []"
    by (simp_all add: bmi_input_def textContent_def)
  ultimately show ?thesis by simp
qed

subsection \<open>Sending the prediction request\<close>

lemma requests_showMessage: "requests (showMessage message type c) = requests c"
  by (simp add: showMessage_def split: option.split)

lemma form_fields_showMessage: "form_fields (showMessage message type c) = form_fields c"
  by (simp add: showMessage_def split: option.split)

lemma container_showMessage:
  "container c = Some children \<Longrightarrow>
   container (showMessage message type c) = Some (alertDiv message type # children)"
  by (simp add: showMessage_def)

lemma validateField_required_empty:
  "validateField (age_input []) =
     (Some False, (age_input [])\<lparr>classList := [lit ''form-control'', lit ''is-invalid'']\<rparr>)"
  by (simp add: validateField_def age_input_def trim_def classList_add_def classList_remove_def
      lit_def)

text \<open>
  Claim C8, as stated, asks that the request is never sent while a required control is
  invalid under \<open>validateField\<close>. The script has no such gate: \<open>submitPredictionAJAX\<close> reads
  no control and calls no validator. On a page whose required age control is empty,
  \<open>validateField\<close> returns \<open>false\<close> and flags the control, and \<open>submitPredictionAJAX\<close> on that
  page sends the request all the same.
\<close>

theorem submit_while_invalid_counterexample:
  "el_required (age_input []) \<and>
   fst (validateField (age_input [])) = Some False \<and>
   lit ''is-invalid'' \<in> set (classList (snd (validateField (age_input [])))) \<and>
   requests (snd (submitPredictionAJAX ann_attrs (Parsed ok_data)
       (page_with_container [snd (validateField (age_input []))])))
     = [predict_request ann_attrs]"
proof -
  have "el_required (age_input [])"
    by (simp add: age_input_def)
  moreover have "lit ''is-invalid'' \<in> set (classList (snd (validateField (age_input []))))"
    by (simp add: validateField_required_empty)
  moreover have "requests (snd (submitPredictionAJAX ann_attrs (Parsed ok_data)
       (page_with_container [snd (validateField (age_input []))])))
     = [predict_request ann_attrs]"
    by (simp add: submitPredictionAJAX_def Let_def requests_showMessage showSuccessMessage_def
        showErrorMessage_def page_with_container_def)
  ultimately show ?thesis by (simp add: validateField_required_empty)
qed

text \<open>
  Claim C8, amended. Every call of \<open>submitPredictionAJAX(formData)\<close> sends one \<open>POST\<close>
  request to \<open>/user/api/predict\<close> carrying \<open>formData\<close>, whatever the state of the controls of
  the form, and leaves the controls as they are.
\<close>

theorem submitPredictionAJAX_sends:
  "requests (snd (submitPredictionAJAX formData result c)) = requests c @ [predict_request formData] \<and>
   url (predict_request formData) = lit ''/user/api/predict'' \<and>
   http_method (predict_request formData) = lit ''POST'' \<and>
   body (predict_request formData) = formData \<and>
   form_fields (snd (submitPredictionAJAX formData result c)) = form_fields c"
  by (cases result)
    (simp_all add: submitPredictionAJAX_def Let_def requests_showMessage form_fields_showMessage
      showSuccessMessage_def showErrorMessage_def predict_request_def)

subsection \<open>Handling the response\<close>

lemma alertDiv_holds_message:
  "\<exists>before after. innerHTML_assigned (alertDiv message type) = before @ message @ after"
proof -
  have "innerHTML_assigned (alertDiv message type) =
        ([0x0A] @ lit ''        <i class=\"fas fa-'' @
         (if type = lit ''success'' then lit ''check-circle'' else lit ''exclamation-triangle'') @
         lit '' me-2\"></i>'' @ [0x0A] @ lit ''        '') @ message @
        ([0x0A] @
         lit ''        <button type=\"button\" class=\"btn-close\" data-bs-dismiss=\"alert\"></button>'' @
         [0x0A] @ lit ''    '')"
    by (simp add: alertDiv_def)
  then show ?thesis by blast
qed

text \<open>
  Claim C9, as stated, fails in two places. \<open>showMessage\<close> puts an alert on the page only
  when the page has a \<open>.container\<close> element: on a page without one a successful response
  shows nothing. And \<open>data.error || 'Prediction failed'\<close> takes the second text also for an
  \<open>error\<close> member that is there but empty, so the message is not the \<open>error\<close> member of
  the response.
\<close>

theorem response_handling_counterexample:
  "success ok_data = Some True \<and>
   container (snd (submitPredictionAJAX ann_attrs (Parsed ok_data) (page_without_container [])))
     = None \<and>
   success empty_error_data = Some False \<and> error empty_error_data = Some [] \<and>
   container (snd (submitPredictionAJAX ann_attrs (Parsed empty_error_data) (page_with_container [])))
     = Some [alertDiv (lit ''Prediction failed'') (lit ''danger'')] \<and>
   alertDiv (lit ''Prediction failed'') (lit ''danger'') \<noteq> alertDiv [] (lit ''danger'')"
  by (simp add: submitPredictionAJAX_def ok_data_def empty_error_data_def
      page_without_container_def page_with_container_def showSuccessMessage_def
      showErrorMessage_def showMessage_def or_else_def alertDiv_def lit_def)

lemma response_with_container:
  fixes c :: "'a client" and formData :: 'a and result :: outcome
  assumes "container c = Some children"
  defines "returned \<equiv> fst (submitPredictionAJAX formData result c)"
    and "after \<equiv> snd (submitPredictionAJAX formData result c)"
  shows "(result = Parsed d \<and> success d = Some True \<longrightarrow>
            returned = Some d \<and>
            container after =
              Some (alertDiv (lit ''Predicted Premium: '' @ to_string (formatted_prediction d))
                      (lit ''success'') # children) \<and>
            (\<forall>fp. formatted_prediction d = Some fp \<longrightarrow>
               (\<exists>before behind.
                  innerHTML_assigned (alertDiv (lit ''Predicted Premium: '' @ to_string (formatted_prediction d))
                              (lit ''success'')) = before @ fp @ behind))) \<and>
         (result = Parsed d \<and> success d = Some False \<longrightarrow>
            returned = Some d \<and>
            container after =
              Some (alertDiv (case error d of
                                None \<Rightarrow> lit ''Prediction failed''
                              | Some e \<Rightarrow> if e = [] then lit ''Prediction failed'' else e)
                      (lit ''danger'') # children)) \<and>
         (result = NetworkFailure \<or> result = ParseFailure \<longrightarrow>
            returned = None \<and>
            container after =
              Some (alertDiv (lit ''Network error occurred'') (lit ''danger'') # children)) \<and>
         requests after = requests c @ [predict_request formData]"
proof (intro conjI impI allI)
  let ?c = "c\<lparr>requests := requests c @ [predict_request formData]\<rparr>"
  have cont: "container ?c = Some children" using assms(1) by simp
  {
    assume ok: "result = Parsed d \<and> success d = Some True"
    then show "returned = Some d"
      by (simp add: returned_def submitPredictionAJAX_def)
    from ok show "container after =
        Some (alertDiv (lit ''Predicted Premium: '' @ to_string (formatted_prediction d))
                (lit ''success'') # children)"
      by (simp add: after_def submitPredictionAJAX_def showSuccessMessage_def
          container_showMessage [OF cont])
    fix fp
    assume fp: "formatted_prediction d = Some fp"
    from alertDiv_holds_message
    obtain before behind where
      "innerHTML_assigned (alertDiv (lit ''Predicted Premium: '' @ to_string (formatted_prediction d))
         (lit ''success'')) =
       before @ (lit ''Predicted Premium: '' @ to_string (formatted_prediction d)) @ behind"
      by blast
    with fp have
      "innerHTML_assigned (alertDiv (lit ''Predicted Premium: '' @ to_string (formatted_prediction d))
         (lit ''success'')) = (before @ lit ''Predicted Premium: '') @ fp @ behind"
      by (simp add: to_string_def)
    then show "\<exists>before behind.
        innerHTML_assigned (alertDiv (lit ''Predicted Premium: '' @ to_string (formatted_prediction d))
          (lit ''success'')) = before @ fp @ behind"
      by blast
  }
  {
    assume failed: "result = Parsed d \<and> success d = Some False"
    then show "returned = Some d"
      by (simp add: returned_def submitPredictionAJAX_def)
    from failed show "container after =
        Some (alertDiv (case error d of
                          None \<Rightarrow> lit ''Prediction failed''
                        | Some e \<Rightarrow> if e = [] then lit ''Prediction failed'' else e)
                (lit ''danger'') # children)"
      by (simp add: after_def submitPredictionAJAX_def showErrorMessage_def or_else_def
          container_showMessage [OF cont])
  }
  {
    assume broken: "result = NetworkFailure \<or> result = ParseFailure"
    then show "returned = None"
      by (auto simp: returned_def submitPredictionAJAX_def)
    from broken show "container after =
        Some (alertDiv (lit ''Network error occurred'') (lit ''danger'') # children)"
      by (auto simp: after_def submitPredictionAJAX_def showErrorMessage_def
          container_showMessage [OF cont])
  }
  show "requests after = requests c @ [predict_request formData]"
    by (cases result)
      (simp_all add: after_def submitPredictionAJAX_def Let_def requests_showMessage
        showSuccessMessage_def showErrorMessage_def)
qed

lemma response_without_container:
  assumes "container c = None"
  shows "container (snd (submitPredictionAJAX formData result c)) = None"
    and "timers (snd (submitPredictionAJAX formData result c)) = timers c"
  using assms
  by (cases result;
      simp add: submitPredictionAJAX_def Let_def showSuccessMessage_def showErrorMessage_def
        showMessage_def)+

text \<open>
  Claim C9, amended. The alert of a message is an element whose \<open>innerHTML\<close> is assigned
  the template of \<open>showMessage\<close> with the message put in as it is. For every outcome of the
  request, on a page with a \<open>.container\<close> element: when the parsed body has \<open>success\<close> true,
  the success alert of \<open>Predicted Premium: \<close> followed by \<open>formatted_prediction\<close> is put
  first in the container, and \<open>formatted_prediction\<close> is part of the markup assigned; when
  \<open>success\<close> is false, the danger alert of the \<open>error\<close> member, or of \<open>Prediction failed\<close>
  when that member is absent or empty, is put first; when the request or the parsing
  fails, the promise still resolves (to \<open>undefined\<close>) and the danger alert of
  \<open>Network error occurred\<close> is put first. On a page without a \<open>.container\<close> element no
  alert is put on the page and no timer is set, whatever the outcome. In every case one
  request was sent.
\<close>

theorem submitPredictionAJAX_response:
  fixes c :: "'a client" and formData :: 'a and result :: outcome
  defines "returned \<equiv> fst (submitPredictionAJAX formData result c)"
    and "after \<equiv> snd (submitPredictionAJAX formData result c)"
  shows "(container c = Some children \<longrightarrow>
           (result = Parsed d \<and> success d = Some True \<longrightarrow>
              returned = Some d \<and>
              container after =
                Some (alertDiv (lit ''Predicted Premium: '' @ to_string (formatted_prediction d))
                        (lit ''success'') # children) \<and>
              (\<forall>fp. formatted_prediction d = Some fp \<longrightarrow>
                 (\<exists>before behind.
                    innerHTML_assigned
                      (alertDiv (lit ''Predicted Premium: '' @ to_string (formatted_prediction d))
                        (lit ''success'')) = before @ fp @ behind))) \<and>
           (result = Parsed d \<and> success d = Some False \<longrightarrow>
              returned = Some d \<and>
              container after =
                Some (alertDiv (case error d of
                                  None \<Rightarrow> lit ''Prediction failed''
                                | Some e \<Rightarrow> if e = [] then lit ''Prediction failed'' else e)
                        (lit ''danger'') # children)) \<and>
           (result = NetworkFailure \<or> result = ParseFailure \<longrightarrow>
              returned = None \<and>
              container after =
                Some (alertDiv (lit ''Network error occurred'') (lit ''danger'') # children))) \<and>
         (container c = None \<longrightarrow> container after = None \<and> timers after = timers c) \<and>
         requests after = requests c @ [predict_request formData]"
proof (intro conjI impI)
  assume "container c = None"
  then show "container after = None" and "timers after = timers c"
    unfolding after_def by (rule response_without_container)+
next
  show "requests after = requests c @ [predict_request formData]"
    by (cases result)
      (simp_all add: after_def submitPredictionAJAX_def Let_def requests_showMessage
        showSuccessMessage_def showErrorMessage_def)
next
  assume cont: "container c = Some children"
  note with_container =
    response_with_container
      [OF cont, where formData = formData and result = result and d = d,
        folded returned_def after_def]
  {
    assume "result = Parsed d \<and> success d = Some True"
    with with_container
    show "returned = Some d"
      and "container after =
                Some (alertDiv (lit ''Predicted Premium: '' @ to_string (formatted_prediction d))
                        (lit ''success'') # children)"
      and "\<forall>fp. formatted_prediction d = Some fp \<longrightarrow>
                 (\<exists>before behind.
                    innerHTML_assigned
                      (alertDiv (lit ''Predicted Premium: '' @ to_string (formatted_prediction d))
                        (lit ''success'')) = before @ fp @ behind)"
      by blast+
  }
  {
    assume "result = Parsed d \<and> success d = Some False"
    with with_container
    show "returned = Some d"
      and "container after =
                Some (alertDiv (case error d of
                                  None \<Rightarrow> lit ''Prediction failed''
                                | Some e \<Rightarrow> if e = [] then lit ''Prediction failed'' else e)
                        (lit ''danger'') # children)"
      by blast+
  }
  {
    assume "result = NetworkFailure \<or> result = ParseFailure"
    with with_container
    show "returned = None"
      and "container after =
                Some (alertDiv (lit ''Network error occurred'') (lit ''danger'') # children)"
      by blast+
  }
qed

theorem submitPredictionAJAX_response_witness:
  "container (page_with_container []) = Some [] \<and>
   success ok_data = Some True \<and>
   formatted_prediction ok_data = Some (lit ''$1,234.56'') \<and>
   container (snd (submitPredictionAJAX ann_attrs (Parsed ok_data) (page_with_container []))) =
     Some [alertDiv (lit ''Predicted Premium: $1,234.56'') (lit ''success'')] \<and>
   (\<exists>before behind.
      innerHTML_assigned (alertDiv (lit ''Predicted Premium: $1,234.56'') (lit ''success'')) =
        before @ lit ''$1,234.56'' @ behind) \<and>
   success quota_error_data = Some False \<and>
   container (snd (submitPredictionAJAX ann_attrs (Parsed quota_error_data) (page_with_container []))) =
     Some [alertDiv (lit ''Quota exceeded'') (lit ''danger'')] \<and>
   fst (submitPredictionAJAX ann_attrs ParseFailure (page_with_container [])) = None \<and>
   container (snd (submitPredictionAJAX ann_attrs ParseFailure (page_with_container []))) =
     Some [alertDiv (lit ''Network error occurred'') (lit ''danger'')] \<and>
   requests (snd (submitPredictionAJAX ann_attrs ParseFailure (page_with_container []))) =
     [predict_request ann_attrs] \<and>
   container (page_without_container []) = None \<and>
   container (snd (submitPredictionAJAX ann_attrs (Parsed ok_data) (page_without_container []))) =
     None \<and>
   timers (snd (submitPredictionAJAX ann_attrs (Parsed ok_data) (page_without_container []))) = []"
proof -
  have page: "container (page_with_container []) = Some []"
    and bare: "container (page_without_container []) = None"
    and bare_timers: "timers (page_without_container []) = []"
    by (simp_all add: page_with_container_def page_without_container_def)
  have ok: "success ok_data = Some True"
    and ok_fp: "formatted_prediction ok_data = Some (lit ''$1,234.56'')"
    and ok_text: "lit ''Predicted Premium: '' @ to_string (formatted_prediction ok_data) =
                  lit ''Predicted Premium: $1,234.56''"
    by (simp_all add: ok_data_def to_string_def lit_def)
  have quota: "success quota_error_data = Some False"
    and quota_text: "error quota_error_data = Some (lit ''Quota exceeded'')"
    and quota_text_nonempty: "lit ''Quota exceeded'' \<noteq> []"
    by (simp_all add: quota_error_data_def lit_def)
  from submitPredictionAJAX_response
         [where c = "page_with_container []" and children = "[]" and formData = ann_attrs
           and result = "Parsed ok_data" and d = ok_data]
       page ok ok_fp
  have "container (snd (submitPredictionAJAX ann_attrs (Parsed ok_data) (page_with_container []))) =
     Some [alertDiv (lit ''Predicted Premium: $1,234.56'') (lit ''success'')]"
    and "\<exists>before behind.
      innerHTML_assigned (alertDiv (lit ''Predicted Premium: $1,234.56'') (lit ''success'')) =
        before @ lit ''$1,234.56'' @ behind"
    unfolding ok_text by blast+
  moreover from submitPredictionAJAX_response
         [where c = "page_with_container []" and children = "[]" and formData = ann_attrs
           and result = "Parsed quota_error_data" and d = quota_error_data]
       page quota quota_text quota_text_nonempty
  have "container (snd (submitPredictionAJAX ann_attrs (Parsed quota_error_data)
           (page_with_container []))) =
     Some [alertDiv (lit ''Quota exceeded'') (lit ''danger'')]"
    by simp
  moreover from submitPredictionAJAX_response
         [where c = "page_with_container []" and children = "[]" and formData = ann_attrs
           and result = ParseFailure]
       page
  have "fst (submitPredictionAJAX ann_attrs ParseFailure (page_with_container [])) = None"
    and "container (snd (submitPredictionAJAX ann_attrs ParseFailure (page_with_container []))) =
     Some [alertDiv (lit ''Network error occurred'') (lit ''danger'')]"
    and "requests (snd (submitPredictionAJAX ann_attrs ParseFailure (page_with_container []))) =
     [predict_request ann_attrs]"
    by (simp_all add: page_with_container_def)
  moreover from submitPredictionAJAX_response
         [where c = "page_without_container []" and formData = ann_attrs
           and result = "Parsed ok_data"]
       bare bare_timers
  have "container (snd (submitPredictionAJAX ann_attrs (Parsed ok_data)
           (page_without_container []))) = None"
    and "timers (snd (submitPredictionAJAX ann_attrs (Parsed ok_data)
           (page_without_container []))) = []"
    by simp_all
  ultimately show ?thesis using page bare ok ok_fp quota by simp
qed

end
